theory Spec2Isabelle
  imports Complex_Main "HOL-Library.Monad_Syntax"
begin

section \<open>Arrays\<close>

text \<open>
  The program computes with numpy arrays of floats.  Floats are idealised as real numbers.
  A one-dimensional array is a list, a two-dimensional array is the list of its rows; an
  array without rows carries no column count.  A call that raises is the value \<open>None\<close>.
\<close>

type_synonym vec = "real list"
type_synonym mat = "real list list"

definition ncols :: "'a list list \<Rightarrow> nat" where
  "ncols A = (case A of [] \<Rightarrow> 0 | r # _ \<Rightarrow> length r)"

definition column :: "'a list list \<Rightarrow> nat \<Rightarrow> 'a list" where
  "column A j = map (\<lambda>r. r ! j) A"

text \<open>\<^verbatim>\<open>A.transpose()\<close> of a two-dimensional array.\<close>

definition np_transpose :: "'a list list \<Rightarrow> 'a list list" where
  "np_transpose A = map (column A) [0..<ncols A]"

text \<open>\<^verbatim>\<open>np.eye(n, m)\<close>; a negative dimension raises ValueError.\<close>

definition np_eye :: "int \<Rightarrow> int \<Rightarrow> mat option" where
  "np_eye n m =
     (if n < 0 \<or> m < 0 then None
      else Some (map (\<lambda>i. map (\<lambda>j. if i = j then 1 else 0) [0..<nat m]) [0..<nat n]))"

text \<open>\<^verbatim>\<open>np.eye(d)\<close> for a dimension \<open>d\<close> that was read off a shape.\<close>

definition eye :: "nat \<Rightarrow> mat" where
  "eye d = map (\<lambda>i. map (\<lambda>j. if i = j then 1 else 0) [0..<d]) [0..<d]"

definition np_ones :: "nat \<Rightarrow> vec" where
  "np_ones d = replicate d 1"

definition np_zeros :: "nat \<Rightarrow> vec" where
  "np_zeros d = replicate d 0"

definition np_zeros2 :: "nat \<Rightarrow> nat \<Rightarrow> mat" where
  "np_zeros2 r c = replicate r (replicate c 0)"

definition scal :: "real \<Rightarrow> vec \<Rightarrow> vec" where
  "scal c v = map (\<lambda>x. c * x) v"

definition mscal :: "real \<Rightarrow> mat \<Rightarrow> mat" where
  "mscal c A = map (scal c) A"

text \<open>\<^verbatim>\<open>np.diag\<close> of a vector, and of a matrix.\<close>

definition np_diag :: "vec \<Rightarrow> mat" where
  "np_diag v = map (\<lambda>i. map (\<lambda>j. if i = j then v ! i else 0) [0..<length v]) [0..<length v]"

definition np_diag_of :: "mat \<Rightarrow> vec" where
  "np_diag_of A = map (\<lambda>i. A ! i ! i) [0..<min (length A) (ncols A)]"

definition rectangular :: "'a list list \<Rightarrow> bool" where
  "rectangular A \<longleftrightarrow> (\<forall>r \<in> set A. length r = ncols A)"

text \<open>
  \<^verbatim>\<open>A + B\<close> on two-dimensional arrays, with numpy's broadcasting: along each axis the two
  extents agree or one of them is 1; otherwise ValueError.
\<close>

definition np_add :: "mat \<Rightarrow> mat \<Rightarrow> mat option" where
  "np_add A B =
     (let m1 = length A; n1 = ncols A; m2 = length B; n2 = ncols B in
      if rectangular A \<and> rectangular B \<and> (m1 = m2 \<or> m1 = 1 \<or> m2 = 1) \<and> (n1 = n2 \<or> n1 = 1 \<or> n2 = 1)
      then Some (map (\<lambda>i. map (\<lambda>j. A ! (if m1 = 1 then 0 else i) ! (if n1 = 1 then 0 else j)
                                  + B ! (if m2 = 1 then 0 else i) ! (if n2 = 1 then 0 else j))
                          [0..<(if n1 = 1 then n2 else n1)])
                   [0..<(if m1 = 1 then m2 else m1)])
      else None)"

definition vdot :: "vec \<Rightarrow> vec \<Rightarrow> real" where
  "vdot a b = sum_list (map2 (*) a b)"

text \<open>\<^verbatim>\<open>np.dot\<close> on two vectors, on a vector and a matrix, on a matrix and a vector and on
  two matrices; mismatched inner dimensions raise ValueError.\<close>

definition np_dot_vv :: "vec \<Rightarrow> vec \<Rightarrow> real option" where
  "np_dot_vv a b = (if length a = length b then Some (vdot a b) else None)"

definition np_dot_vm :: "vec \<Rightarrow> mat \<Rightarrow> vec option" where
  "np_dot_vm a B =
     (if length a = length B then Some (map (\<lambda>j. vdot a (column B j)) [0..<ncols B]) else None)"

definition np_dot_mv :: "mat \<Rightarrow> vec \<Rightarrow> vec option" where
  "np_dot_mv A x =
     (if \<forall>r \<in> set A. length r = length x then Some (map (\<lambda>r. vdot r x) A) else None)"

definition np_dot :: "mat \<Rightarrow> mat \<Rightarrow> mat option" where
  "np_dot A B =
     (if \<forall>r \<in> set A. length r = length B
      then Some (map (\<lambda>r. map (\<lambda>j. vdot r (column B j)) [0..<ncols B]) A) else None)"

text \<open>\<^verbatim>\<open>np.vstack\<close>: the blocks on top of each other, all rows of one length.\<close>

definition np_vstack :: "mat list \<Rightarrow> mat option" where
  "np_vstack Bs = (let M = concat Bs in if rectangular M then Some M else None)"

text \<open>\<^verbatim>\<open>np.hstack\<close> of two-dimensional blocks: side by side, all with the same number of
  rows.  (On vectors \<^verbatim>\<open>np.hstack\<close> is list concatenation.)\<close>

definition np_hstack :: "mat list \<Rightarrow> mat option" where
  "np_hstack Bs =
     (case Bs of [] \<Rightarrow> None
      | B # _ \<Rightarrow> if \<forall>C \<in> set Bs. length C = length B
                 then Some (map (\<lambda>i. concat (map (\<lambda>C. C ! i) Bs)) [0..<length B]) else None)"

text \<open>Indexing with a list of positions: \<^verbatim>\<open>a[idx]\<close> and \<^verbatim>\<open>A[:, idx]\<close>; a position outside the
  array raises IndexError.\<close>

definition take_idx :: "'a list \<Rightarrow> nat list \<Rightarrow> 'a list option" where
  "take_idx a idx = (if \<forall>i \<in> set idx. i < length a then Some (map (\<lambda>i. a ! i) idx) else None)"

definition cols_idx :: "'a list list \<Rightarrow> nat list \<Rightarrow> 'a list list option" where
  "cols_idx A idx =
     (if \<forall>i \<in> set idx. i < ncols A then Some (map (\<lambda>r. map (\<lambda>i. r ! i) idx) A) else None)"

text \<open>Python's \<^verbatim>\<open>min\<close> and \<^verbatim>\<open>max\<close> over a sequence; ValueError on an empty one.\<close>

definition py_min :: "real list \<Rightarrow> real option" where
  "py_min xs = (case xs of [] \<Rightarrow> None | x # r \<Rightarrow> Some (fold min r x))"

definition py_max :: "real list \<Rightarrow> real option" where
  "py_max xs = (case xs of [] \<Rightarrow> None | x # r \<Rightarrow> Some (fold max r x))"

text \<open>Python's slices \<^verbatim>\<open>xs[a:b]\<close>, \<^verbatim>\<open>xs[a:]\<close> and \<^verbatim>\<open>xs[:b]\<close>: a negative bound counts from the
  end, and bounds are clipped to the sequence.\<close>

definition slice_bound :: "'a list \<Rightarrow> int \<Rightarrow> nat" where
  "slice_bound xs k =
     (let n = int (length xs) in nat (if k < 0 then max 0 (n + k) else min k n))"

definition py_slice :: "'a list \<Rightarrow> int \<Rightarrow> int \<Rightarrow> 'a list" where
  "py_slice xs a b = take (slice_bound xs b - slice_bound xs a) (drop (slice_bound xs a) xs)"

definition py_slice_from :: "'a list \<Rightarrow> int \<Rightarrow> 'a list" where
  "py_slice_from xs a = drop (slice_bound xs a) xs"

definition py_slice_to :: "'a list \<Rightarrow> int \<Rightarrow> 'a list" where
  "py_slice_to xs b = take (slice_bound xs b) xs"

text \<open>Python's \<^verbatim>\<open>range(start, stop, step)\<close> as the list of its values; a zero step raises
  ValueError.\<close>

definition py_range :: "int \<Rightarrow> int \<Rightarrow> int \<Rightarrow> int list option" where
  "py_range start stop step =
     (if step = 0 then None
      else if 0 < step
        then Some (map (\<lambda>j. start + int j * step) [0..<nat ((stop - start + step - 1) div step)])
        else Some (map (\<lambda>j. start + int j * step) [0..<nat ((start - stop - step - 1) div (- step))]))"

section \<open>Dmat\<close>

text \<open>
  \<^verbatim>\<open>Dmat(n, k)\<close>.  The branch \<open>k = 1\<close> overwrites entry \<open>(i, i + 1)\<close> of
  \<^verbatim>\<open>np.eye(n - 1, n)\<close> for each row \<open>i\<close>; the last branch calls \<^verbatim>\<open>Dmat(n, 1)\<close> and then
  multiplies from the left by \<^verbatim>\<open>Dmat(n - i - 1, 1)\<close> for \<open>i = 0, \<dots>, k - 2\<close>.
\<close>

function Dmat :: "int \<Rightarrow> int \<Rightarrow> mat option" where
  "Dmat n k =
     (if k = 0 then np_eye n n
      else if k = 1 then
        map_option (fold (\<lambda>i D. D[i := (D ! i)[i + 1 := - 1]]) [0..<nat (n - 1)])
          (np_eye (n - 1) n)
      else
        fold (\<lambda>i acc. do { D \<leftarrow> acc; Dn \<leftarrow> Dmat (n - int i - 1) 1; np_dot Dn D })
          [0..<nat (k - 1)] (Dmat n 1))"
  by pat_completeness auto
termination
  by (relation "measure (\<lambda>(n, k). if k = 1 then 0 else 1)") auto

declare Dmat.simps [simp del]

section \<open>Conditioning of the covariance matrix\<close>

text \<open>
  \<^verbatim>\<open>numpy.linalg.eig\<close> is a library routine outside the repository.  It is a parameter
  \<open>eig\<close> of the model: \<open>eig A = Some (D, V)\<close> gives the vector of eigenvalues and the matrix
  whose columns are the eigenvectors, \<open>None\<close> is LinAlgError.
\<close>

type_synonym eig_fun = "mat \<Rightarrow> (vec \<times> mat) option"

text \<open>\<^verbatim>\<open>SymPDcovmatrix(A, tol=None)\<close>.  \<^verbatim>\<open>if not tol\<close> replaces a missing and also a zero
  tolerance by \<open>1e-04\<close>.\<close>

definition SymPDcovmatrix :: "eig_fun \<Rightarrow> mat \<Rightarrow> real option \<Rightarrow> (mat \<times> real) option" where
  "SymPDcovmatrix eig A tol = do {
     let tol = (case tol of None \<Rightarrow> 1 / 10000 | Some t \<Rightarrow> if t = 0 then 1 / 10000 else t);
     S \<leftarrow> np_add A (np_transpose A);
     let A = mscal (1 / 2) S;
     (D, V) \<leftarrow> eig A;
     let D = map (\<lambda>x. if x < tol then tol else x) D;
     let D = np_diag D;
     t \<leftarrow> np_dot V D;
     A \<leftarrow> np_dot t (np_transpose V);
     least \<leftarrow> py_min (np_diag_of D);
     let e_min = max tol least;
     S \<leftarrow> np_add A (np_transpose A);
     Some (mscal (1 / 2) S, e_min)
   }"

definition np_mean :: "vec \<Rightarrow> real" where
  "np_mean v = sum_list v / real (length v)"

text \<open>
  \<^verbatim>\<open>sigMatShrinkage(sigMat, lambda_l2)\<close>.  The products with \<^verbatim>\<open>np.diag(sig ** (-1))\<close> raise
  unless the matrix is square; their results are not used.  A negative diagonal entry
  makes \<^verbatim>\<open>np.sqrt\<close> return NaN, and the NaN matrix makes the eigenvalue routine
  raise in \<^verbatim>\<open>SymPDcovmatrix\<close>, which every caller runs next: that is \<open>None\<close> here.
  Otherwise \<^verbatim>\<open>sig ** 2\<close>, the square of the square root of the diagonal, is the diagonal.
\<close>

definition sigMatShrinkage :: "mat \<Rightarrow> real \<Rightarrow> mat option" where
  "sigMatShrinkage sigMat lambda_l2 =
     (let d = length sigMat in
      if \<not> (rectangular sigMat \<and> ncols sigMat = d) then None
      else if \<exists>x \<in> set (np_diag_of sigMat). x < 0 then None
      else np_add sigMat (mscal (lambda_l2 * np_mean (np_diag_of sigMat)) (eye d)))"

section \<open>The quadratic programs\<close>

text \<open>
  The solver minimises \<open>\<onehalf> x\<^sup>T P x + q\<^sup>T x\<close> subject to \<open>l \<le> A x \<le> u\<close>.  A bound is a float
  or \<^verbatim>\<open>-np.inf\<close>; the upper bound that carries the return target of
  \<^verbatim>\<open>meanVariancePortfolioReturnsTarget\<close> can also be a complex number (see \<open>daily_target\<close>
  below), and \<^verbatim>\<open>np.hstack\<close> then makes \<open>u\<close> an array of complex numbers, whose other
  entries are written as the floats they were.  The solver is outside the repository
  and a parameter of the model: it may raise (\<open>None\<close>), and an entry of its solution
  vector is a float or Python's \<^verbatim>\<open>None\<close>, which the solver's interface returns for a
  problem it did not solve.
\<close>

datatype bound = NegInf | Fin real | FinC complex

record qp =
  qp_P :: mat
  qp_q :: vec
  qp_A :: mat
  qp_l :: "bound list"
  qp_u :: "bound list"

type_synonym solver = "qp \<Rightarrow> real option list option"

text \<open>\<^verbatim>\<open>x.all()\<close>: every entry is truthy, that is neither zero nor \<^verbatim>\<open>None\<close>.\<close>

definition np_all :: "real option list \<Rightarrow> bool" where
  "np_all x \<longleftrightarrow> (\<forall>e \<in> set x. e \<noteq> None \<and> e \<noteq> Some 0)"

text \<open>
  An \<^verbatim>\<open>assetsOrder\<close> is a list of positions, counted from 0 (Python's negative positions,
  which count from the end, are left out).  The program only tests it for truth
  (\<^verbatim>\<open>if assetsOrder:\<close>) before indexing with it, so \<^verbatim>\<open>None\<close> and the empty list behave
  alike and are both the list \<open>[]\<close> here.
\<close>

text \<open>\<^verbatim>\<open>temp = sigMat[:, assetsOrder]; sigMat = temp[assetsOrder, :]\<close>\<close>

definition reorder :: "mat \<Rightarrow> nat list \<Rightarrow> mat option" where
  "reorder sigMat assetsOrder = do {
     temp \<leftarrow> cols_idx sigMat assetsOrder;
     take_idx temp assetsOrder
   }"

text \<open>The shrinkage and conditioning step that both optimizers run after reordering.\<close>

definition condition :: "eig_fun \<Rightarrow> mat \<Rightarrow> real \<Rightarrow> (mat \<times> real) option" where
  "condition eig sigMat lambda_l2 =
     (if lambda_l2 \<noteq> 0 then do {
        sigMat \<leftarrow> sigMatShrinkage sigMat lambda_l2;
        SymPDcovmatrix eig sigMat None
      } else SymPDcovmatrix eig sigMat None)"

text \<open>The ordering block written out in \<^verbatim>\<open>minimumVariancePortfolio\<close>:
  \<^verbatim>\<open>D = np.eye(d - 1, d)\<close> with \<^verbatim>\<open>D[i, i + 1] = -1\<close> for every row.\<close>

definition order_block :: "nat \<Rightarrow> mat option" where
  "order_block d =
     map_option (fold (\<lambda>i D. D[i := (D ! i)[i + 1 := - 1]]) [0..<d - 1])
       (np_eye (int d - 1) (int d))"

text \<open>The blocks that the two long-short formulations share: the equality block with its
  right-hand side, the box bounds, and the objective matrix on \<open>(w, u, v)\<close>.\<close>

definition long_short_Aeq :: "nat \<Rightarrow> mat option" where
  "long_short_Aeq d = do {
     top \<leftarrow> np_hstack [eye d, mscal (- 1) (eye d), eye d];
     np_vstack [top, [np_ones d @ np_zeros d @ np_zeros d]]
   }"

definition long_short_P :: "mat \<Rightarrow> real \<Rightarrow> nat \<Rightarrow> mat option" where
  "long_short_P sigMat e_min d = do {
     top \<leftarrow> np_hstack [sigMat, np_zeros2 d (2 * d)];
     sigMat3d \<leftarrow> np_vstack [top, np_zeros2 (2 * d) (3 * d)];
     np_add sigMat3d
       (np_diag (scal (- (1 / 10) * e_min) (np_ones d) @ scal (1 / 10 * e_min) (np_ones (2 * d))))
   }"

definition long_short_q :: "real \<Rightarrow> nat \<Rightarrow> vec" where
  "long_short_q lambda_l1 d =
     (let meanvec3d = (if lambda_l1 \<noteq> 0
                       then np_zeros d @ scal (- lambda_l1) (np_ones (2 * d))
                       else np_zeros d @ np_zeros (2 * d))
      in scal (- 1) meanvec3d)"

section \<open>minimumVariancePortfolio\<close>

text \<open>
  The part of \<^verbatim>\<open>minimumVariancePortfolio\<close> up to \<^verbatim>\<open>prob.setup\<close>: it returns the dimension
  \<open>d\<close>, the conditioned covariance and the problem handed to the solver.
\<close>

definition minvar_problem ::
  "eig_fun \<Rightarrow> mat \<Rightarrow> real \<Rightarrow> real \<Rightarrow> real \<Rightarrow> real \<Rightarrow> nat list \<Rightarrow> (nat \<times> mat \<times> qp) option" where
  "minvar_problem eig sigMat longShort maxAlloc lambda_l1 lambda_l2 assetsOrder = do {
     let d = length sigMat;
     sigMat \<leftarrow> (if assetsOrder \<noteq> [] then reorder sigMat assetsOrder else Some sigMat);
     (sigMat, e_min) \<leftarrow> condition eig sigMat lambda_l2;
     if longShort = 0 then do {
       let Aeq = np_ones d;
       let Beq = 1;
       let LB = np_zeros d;
       let UB = scal maxAlloc (np_ones d);
       (A, l, u) \<leftarrow> (if assetsOrder \<noteq> [] then do {
           let L_ine = scal (- 1) (np_ones (d - 1));
           D \<leftarrow> order_block d;
           let A = mscal (- 1) D;
           let B = np_zeros (d - 1);
           A \<leftarrow> np_vstack [A, [Aeq], eye d];
           Some (A, L_ine @ [Beq] @ LB, B @ [Beq] @ UB)
         } else do {
           A \<leftarrow> np_vstack [[Aeq], eye d];
           Some (A, [Beq] @ LB, [Beq] @ UB)
         });
       let meanVec = (if lambda_l1 \<noteq> 0 then scal (- lambda_l1) (np_ones d)
                      else scal (- 1) (np_zeros d));
       Some (d, sigMat, \<lparr>qp_P = sigMat, qp_q = scal (- 1) meanVec, qp_A = A,
                          qp_l = map Fin l, qp_u = map Fin u\<rparr>)
     } else do {
       let A = [np_zeros d @ np_ones d @ np_zeros d];
       let B = [1 + \<bar>longShort\<bar>];
       let Grenze = min \<bar>longShort\<bar> maxAlloc;
       (A, B, L_ine) \<leftarrow> (if assetsOrder \<noteq> [] then do {
           let L_ine = [0] @ scal (- (1 + 2 * Grenze)) (np_ones (d - 1));
           D \<leftarrow> order_block d;
           Dz \<leftarrow> np_hstack [mscal (- 1) D, np_zeros2 (d - 1) (2 * d)];
           A \<leftarrow> np_vstack [A, Dz];
           Some (A, B @ np_zeros (d - 1), L_ine)
         } else Some (A, B, [0]));
       Aeq \<leftarrow> long_short_Aeq d;
       let Beq = np_zeros d @ [1];
       let LB = scal (- Grenze) (np_ones d) @ np_zeros (2 * d);
       let UB = scal maxAlloc (np_ones (3 * d));
       sigMat3d \<leftarrow> long_short_P sigMat e_min d;
       A \<leftarrow> np_vstack [A, Aeq, eye (3 * d)];
       Some (d, sigMat, \<lparr>qp_P = sigMat3d, qp_q = long_short_q lambda_l1 d, qp_A = A,
                          qp_l = map Fin (L_ine @ Beq @ LB), qp_u = map Fin (B @ Beq @ UB)\<rparr>)
     }
   }"

text \<open>
  The part of both optimizers from \<^verbatim>\<open>prob.solve()\<close> on: the fallback to equal weights
  when \<^verbatim>\<open>x.all()\<close> is false, the weights (all of \<open>x\<close> in the long-only branch, its first
  \<open>d\<close> entries in the long-short branch), the variance, and the final indexing with
  \<^verbatim>\<open>assetsOrder\<close>.
\<close>

definition solve_and_finish ::
  "solver \<Rightarrow> real \<Rightarrow> nat list \<Rightarrow> nat \<times> mat \<times> qp \<Rightarrow> (vec \<times> real) option" where
  "solve_and_finish solve longShort assetsOrder prob = do {
     let (d, sigMat, p) = prob;
     x \<leftarrow> solve p;
     let w_opt = (if longShort = 0
                  then (if \<not> np_all x then map (\<lambda>e. e / real d) (np_ones d) else map the x)
                  else (if \<not> np_all x then map (\<lambda>e. e / real d) (np_ones d)
                        else take d (map the x)));
     t \<leftarrow> np_dot_vm w_opt sigMat;
     Var_opt \<leftarrow> np_dot_vv t w_opt;
     w_opt \<leftarrow> (if assetsOrder \<noteq> [] then take_idx w_opt assetsOrder else Some w_opt);
     Some (w_opt, Var_opt)
   }"

definition minimumVariancePortfolio ::
  "solver \<Rightarrow> eig_fun \<Rightarrow> mat \<Rightarrow> real \<Rightarrow> real \<Rightarrow> real \<Rightarrow> real \<Rightarrow> nat list \<Rightarrow> (vec \<times> real) option" where
  "minimumVariancePortfolio solve eig sigMat longShort maxAlloc lambda_l1 lambda_l2 assetsOrder = do {
     prob \<leftarrow> minvar_problem eig sigMat longShort maxAlloc lambda_l1 lambda_l2 assetsOrder;
     solve_and_finish solve longShort assetsOrder prob
   }"

section \<open>meanVariancePortfolioReturnsTarget\<close>

text \<open>
  \<^verbatim>\<open>100 * ((retTarget / 100 + 1) ** (1 / 250) - 1)\<close> for a Python float \<^verbatim>\<open>retTarget\<close>.  On a
  negative base and a fractional exponent Python's power gives a complex number: the
  modulus of the base to the power of the exponent, at the phase \<open>\<pi>\<close> times the exponent.
  The converted target is therefore a float or a complex number.  The complex power is
  defined with \<open>cis\<close> and \<open>\<pi>\<close> and is not unfolded when the definitions are evaluated.
\<close>

datatype number = Float real | Cplx complex

definition negative_power :: "real \<Rightarrow> real \<Rightarrow> complex" where
  "negative_power base y = complex_of_real (\<bar>base\<bar> powr y) * cis (pi * y)"

declare negative_power_def [code del]

definition daily_target :: "real \<Rightarrow> number" where
  "daily_target retTarget =
     (let base = retTarget / 100 + 1 in
      if base < 0 then Cplx (100 * (negative_power base (1 / 250) - 1))
      else Float (100 * (base powr (1 / 250) - 1)))"

text \<open>
  The entries of \<^verbatim>\<open>meanVec\<close> are numpy floats, and numpy compares a complex number with
  them by the real parts first and the imaginary parts second.  Python's \<^verbatim>\<open>min(a, b)\<close> is
  \<open>b\<close> if \<^verbatim>\<open>b < a\<close> and \<open>a\<close> otherwise; \<^verbatim>\<open>max(a, b)\<close> is \<open>b\<close> if \<^verbatim>\<open>b > a\<close> and \<open>a\<close> otherwise.
\<close>

fun re_part :: "number \<Rightarrow> real" where
  "re_part (Float x) = x"
| "re_part (Cplx c) = Re c"

fun im_part :: "number \<Rightarrow> real" where
  "im_part (Float x) = 0"
| "im_part (Cplx c) = Im c"

definition number_less :: "number \<Rightarrow> number \<Rightarrow> bool" where
  "number_less a b \<longleftrightarrow> re_part a < re_part b \<or> (re_part a = re_part b \<and> im_part a < im_part b)"

definition py_min2 :: "number \<Rightarrow> number \<Rightarrow> number" where
  "py_min2 a b = (if number_less b a then b else a)"

definition py_max2 :: "number \<Rightarrow> number \<Rightarrow> number" where
  "py_max2 a b = (if number_less a b then b else a)"

text \<open>The clamping of the converted target (lines 337 to 342).\<close>

definition clamp_target :: "vec \<Rightarrow> number \<Rightarrow> number option" where
  "clamp_target meanVec dailyRetTarget = do {
     minEret \<leftarrow> py_min meanVec;
     maxEret \<leftarrow> py_max meanVec;
     Some (if number_less dailyRetTarget (Float minEret) \<or> number_less (Float maxEret) dailyRetTarget
           then (let part1 = Float minEret; part2 = py_min2 (Float maxEret) dailyRetTarget
                 in py_max2 part1 part2)
           else dailyRetTarget)
   }"

text \<open>\<^verbatim>\<open>-tau\<close>, as the bound that it becomes in \<open>u\<close>.\<close>

fun minus_bound :: "number \<Rightarrow> bound" where
  "minus_bound (Float x) = Fin (- x)"
| "minus_bound (Cplx c) = FinC (- c)"

text \<open>
  Lines 344 to 440 of \<^verbatim>\<open>meanVariancePortfolioReturnsTarget\<close>, from the clamped target
  \<open>dailyRetTarget\<close> to \<^verbatim>\<open>prob.setup\<close>; \<open>meanvar_problem\<close> is the whole function up to there.
  Both return the dimension \<open>d\<close>, the conditioned covariance and the problem handed to
  the solver.
\<close>

definition meanvar_qp ::
  "eig_fun \<Rightarrow> vec \<Rightarrow> mat \<Rightarrow> number \<Rightarrow> real \<Rightarrow> real \<Rightarrow> real \<Rightarrow> real \<Rightarrow> nat list
     \<Rightarrow> (nat \<times> mat \<times> qp) option" where
  "meanvar_qp eig meanVec sigMat dailyRetTarget longShort maxAlloc lambda_l1 lambda_l2 assetsOrder = do {
     let d = length sigMat;
     sigMat \<leftarrow> (if assetsOrder \<noteq> [] then reorder sigMat assetsOrder else Some sigMat);
     meanVec \<leftarrow> (if assetsOrder \<noteq> [] then take_idx meanVec assetsOrder else Some meanVec);
     (sigMat, e_min) \<leftarrow> condition eig sigMat lambda_l2;
     let tau = dailyRetTarget;
     if longShort = 0 then do {
       let Aeq = np_ones d;
       let Beq = Fin 1;
       let LB = map Fin (np_zeros d);
       let UB = map Fin (scal maxAlloc (np_ones d));
       (A, B, L_ine) \<leftarrow> (if assetsOrder \<noteq> [] then do {
           let L_ine = [NegInf] @ map Fin (scal (- 1) (np_ones (d - 1)));
           D \<leftarrow> Dmat (int d) 1;
           A \<leftarrow> np_vstack [[scal (- 1) meanVec], mscal (- 1) D];
           Some (A, [minus_bound tau] @ map Fin (np_zeros (d - 1)), L_ine)
         } else Some ([scal (- 1) meanVec], [minus_bound tau], [NegInf]));
       let meanVec = (if lambda_l1 \<noteq> 0 then scal (- lambda_l1) meanVec
                      else scal (- 1) (np_zeros d));
       A \<leftarrow> np_vstack [A, [Aeq], eye d];
       Some (d, sigMat, \<lparr>qp_P = sigMat, qp_q = scal (- 1) meanVec, qp_A = A,
                          qp_l = L_ine @ [Beq] @ LB, qp_u = B @ [Beq] @ UB\<rparr>)
     } else do {
       let A = [np_zeros d @ np_ones d @ np_zeros d];
       let B = [Fin (1 + \<bar>longShort\<bar>)];
       let Grenze = min \<bar>longShort\<bar> maxAlloc;
       (A, B, L_ine) \<leftarrow> (if assetsOrder \<noteq> [] then do {
           A \<leftarrow> np_vstack [A, [scal (- 1) meanVec @ np_zeros (2 * d)]];
           let B = B @ [minus_bound tau];
           D \<leftarrow> Dmat (int d) 1;
           Dz \<leftarrow> np_hstack [mscal (- 1) D, np_zeros2 (d - 1) (2 * d)];
           A \<leftarrow> np_vstack [A, Dz];
           Some (A, B @ map Fin (np_zeros (d - 1)),
                 [Fin 0, NegInf] @ map Fin (scal (- (1 + 2 * Grenze)) (np_ones (d - 1))))
         } else do {
           A \<leftarrow> np_vstack [A, [scal (- 1) meanVec @ np_zeros (2 * d)]];
           Some (A, B @ [minus_bound tau], [Fin 0, NegInf])
         });
       Aeq \<leftarrow> long_short_Aeq d;
       let Beq = np_zeros d @ [1];
       let LB = scal (- Grenze) (np_ones d) @ np_zeros (2 * d);
       let UB = scal maxAlloc (np_ones (3 * d));
       sigMat3d \<leftarrow> long_short_P sigMat e_min d;
       A \<leftarrow> np_vstack [A, Aeq, eye (3 * d)];
       Some (d, sigMat, \<lparr>qp_P = sigMat3d, qp_q = long_short_q lambda_l1 d, qp_A = A,
                          qp_l = L_ine @ map Fin (Beq @ LB), qp_u = B @ map Fin (Beq @ UB)\<rparr>)
     }
   }"

definition meanvar_problem ::
  "eig_fun \<Rightarrow> vec \<Rightarrow> mat \<Rightarrow> real \<Rightarrow> real \<Rightarrow> real \<Rightarrow> real \<Rightarrow> real \<Rightarrow> nat list
     \<Rightarrow> (nat \<times> mat \<times> qp) option" where
  "meanvar_problem eig meanVec sigMat retTarget longShort maxAlloc lambda_l1 lambda_l2 assetsOrder = do {
     let dailyRetTarget = daily_target retTarget;
     dailyRetTarget \<leftarrow> clamp_target meanVec dailyRetTarget;
     meanvar_qp eig meanVec sigMat dailyRetTarget longShort maxAlloc lambda_l1 lambda_l2 assetsOrder
   }"

definition meanVariancePortfolioReturnsTarget ::
  "solver \<Rightarrow> eig_fun \<Rightarrow> vec \<Rightarrow> mat \<Rightarrow> real \<Rightarrow> real \<Rightarrow> real \<Rightarrow> real \<Rightarrow> real \<Rightarrow> nat list
     \<Rightarrow> (vec \<times> real) option" where
  "meanVariancePortfolioReturnsTarget solve eig meanVec sigMat retTarget longShort maxAlloc
       lambda_l1 lambda_l2 assetsOrder = do {
     prob \<leftarrow> meanvar_problem eig meanVec sigMat retTarget longShort maxAlloc lambda_l1 lambda_l2
               assetsOrder;
     solve_and_finish solve longShort assetsOrder prob
   }"

section \<open>The rolling-window backtest\<close>

text \<open>
  A pandas data frame is its row labels, its column labels and its rows of values.  The
  model of the backtest starts from the pivoted price table \<^verbatim>\<open>df1\<close> (one row per date,
  one column per ticker); the construction of that table from the raw records is
  pandas' work.  A price is a float or missing (NaN), which is \<open>None\<close>.  A log-return is a
  float, NaN or one of the two infinities: the logarithm of the price 0 is \<^verbatim>\<open>-inf\<close>.
\<close>

record 'a frame =
  frame_index :: "string list"
  frame_columns :: "string list"
  frame_values :: "'a list list"

datatype cell = Num real | NaN | PlusInf | MinusInf

text \<open>
  The arithmetic of floats on these values: \<^verbatim>\<open>np.log(p)\<close>, \<^verbatim>\<open>a + b\<close>, \<^verbatim>\<open>c * a\<close> and \<^verbatim>\<open>a / c\<close>
  for a float \<open>c\<close> (a zero divisor is the float \<open>+0.0\<close>), and \<^verbatim>\<open>a - b\<close>, which is \<open>a + (-1) * b\<close>.
\<close>

definition np_log :: "real option \<Rightarrow> cell" where
  "np_log p =
     (case p of
        None \<Rightarrow> NaN
      | Some x \<Rightarrow> if 0 < x then Num (ln x) else if x = 0 then MinusInf else NaN)"

fun cell_plus :: "cell \<Rightarrow> cell \<Rightarrow> cell" where
  "cell_plus (Num a) (Num b) = Num (a + b)"
| "cell_plus NaN b = NaN"
| "cell_plus a NaN = NaN"
| "cell_plus PlusInf MinusInf = NaN"
| "cell_plus MinusInf PlusInf = NaN"
| "cell_plus PlusInf b = PlusInf"
| "cell_plus a PlusInf = PlusInf"
| "cell_plus MinusInf b = MinusInf"
| "cell_plus a MinusInf = MinusInf"

fun cell_times :: "real \<Rightarrow> cell \<Rightarrow> cell" where
  "cell_times c (Num a) = Num (c * a)"
| "cell_times c NaN = NaN"
| "cell_times c PlusInf = (if 0 < c then PlusInf else if c < 0 then MinusInf else NaN)"
| "cell_times c MinusInf = (if 0 < c then MinusInf else if c < 0 then PlusInf else NaN)"

fun cell_div :: "cell \<Rightarrow> real \<Rightarrow> cell" where
  "cell_div (Num a) c =
     (if c \<noteq> 0 then Num (a / c) else if 0 < a then PlusInf else if a < 0 then MinusInf else NaN)"
| "cell_div NaN c = NaN"
| "cell_div PlusInf c = (if 0 \<le> c then PlusInf else MinusInf)"
| "cell_div MinusInf c = (if 0 \<le> c then MinusInf else PlusInf)"

definition cell_minus :: "cell \<Rightarrow> cell \<Rightarrow> cell" where
  "cell_minus a b = cell_plus a (cell_times (- 1) b)"

text \<open>\<^verbatim>\<open>100 * (np.log(df1) - np.log(df1.shift(1)))\<close> without its first row.\<close>

definition log_return :: "real option \<Rightarrow> real option \<Rightarrow> cell" where
  "log_return prev cur = cell_times 100 (cell_minus (np_log cur) (np_log prev))"

definition log_returns :: "real option frame \<Rightarrow> cell frame" where
  "log_returns df1 =
     \<lparr>frame_index = tl (frame_index df1), frame_columns = frame_columns df1,
      frame_values = map2 (map2 log_return) (frame_values df1) (tl (frame_values df1))\<rparr>"

text \<open>\<^verbatim>\<open>df[a:b]\<close> selects rows by position, and \<^verbatim>\<open>df / 100\<close> divides every value.\<close>

definition frame_rows :: "'a frame \<Rightarrow> int \<Rightarrow> int \<Rightarrow> 'a frame" where
  "frame_rows df a b =
     df\<lparr>frame_index := py_slice (frame_index df) a b, frame_values := py_slice (frame_values df) a b\<rparr>"

definition frame_div :: "cell frame \<Rightarrow> real \<Rightarrow> cell frame" where
  "frame_div df c = df\<lparr>frame_values := map (map (\<lambda>x. cell_div x c)) (frame_values df)\<rparr>"

text \<open>
  \<^verbatim>\<open>check_missing(df_logret)\<close>.  The frame is transposed, so that a row is a ticker; the
  flag of a row is 0 if it has a missing value and 1 otherwise; the flags become a new
  column \<^verbatim>\<open>missing_flag\<close>; the rows with flag 1 are kept; the result is transposed back.
  The column of flags is a row of the result, below the rows of the window.  A missing
  value is NaN: \<^verbatim>\<open>isnull\<close> does not flag an infinity.
\<close>

definition check_missing :: "cell frame \<Rightarrow> cell frame" where
  "check_missing df_logret =
     (let tickers = [0..<length (frame_columns df_logret)];
          flag = map (\<lambda>j. if \<exists>x \<in> set (column (frame_values df_logret) j). x = NaN
                           then 0 else (1::real)) tickers;
          res = filter (\<lambda>j. flag ! j = 1) tickers
      in \<lparr>frame_index = frame_index df_logret @ [''missing_flag''],
          frame_columns = map (\<lambda>j. frame_columns df_logret ! j) res,
          frame_values = map (\<lambda>r. map (\<lambda>j. r ! j) res) (frame_values df_logret)
                         @ [map (\<lambda>j. Num (flag ! j)) res]\<rparr>)"

text \<open>
  \<^verbatim>\<open>np.array\<close> of the values of a frame, when all of them are finite.  With NaN or an
  infinity among the values the result is \<open>None\<close>: the covariance that \<^verbatim>\<open>np.cov\<close> computes
  from such an array has NaN entries, and the optimizers raise on it in the eigenvalue
  routine.
\<close>

fun finite_value :: "cell \<Rightarrow> real option" where
  "finite_value (Num x) = Some x"
| "finite_value c = None"

definition np_array :: "cell list list \<Rightarrow> mat option" where
  "np_array rows =
     (if \<forall>r \<in> set rows. None \<notin> set (map finite_value r)
      then Some (map (map (\<lambda>c. the (finite_value c))) rows) else None)"

text \<open>
  \<^verbatim>\<open>np.mean(X, axis=0)\<close> and \<^verbatim>\<open>np.cov(X, rowvar=False)\<close> of a matrix with one observation per
  row.  Without rows the mean is NaN; with fewer than two rows the covariance is NaN, and
  with a single column it is a scalar, not a matrix.  The optimizers raise on these (in
  the eigenvalue routine, or at \<^verbatim>\<open>sigMat.shape[0]\<close>); they are \<open>None\<close> here, and the
  failure happens where the value is used.
\<close>

definition np_mean0 :: "mat \<Rightarrow> vec option" where
  "np_mean0 X = (if X = [] then None else Some (map (\<lambda>j. np_mean (column X j)) [0..<ncols X]))"

definition np_cov :: "mat \<Rightarrow> mat option" where
  "np_cov X =
     (if length X < 2 \<or> ncols X = 1 then None
      else Some (map (\<lambda>j. map (\<lambda>k.
             sum_list (map (\<lambda>r. (r ! j - np_mean (column X j)) * (r ! k - np_mean (column X k))) X)
               / (real (length X) - 1)) [0..<ncols X]) [0..<ncols X]))"

text \<open>
  Lines 560 to 565 of the loop body: the window of the rebalance index \<open>i\<close>, its tickers,
  and the mean vector and covariance matrix computed from it.  These lines do not raise.
\<close>

definition window_stats ::
  "cell frame \<Rightarrow> int \<Rightarrow> int \<Rightarrow> int \<Rightarrow> (string list \<times> vec option \<times> mat option) option" where
  "window_stats df_logret n window_size i =
     (let window = check_missing (frame_div (frame_rows df_logret (i - window_size) i) 100);
          sample_stocks = frame_columns window;
          logret_window = np_array (py_slice_to (frame_values window) (n - 1));
          sigMat = logret_window \<bind> np_cov;
          meanVec = map_option (map (\<lambda>x. x / 100)) (logret_window \<bind> np_mean0)
      in Some (sample_stocks, meanVec, sigMat))"

text \<open>
  Lines 567 to 588: the call of the optimizer.  The arguments are passed by position.
  The result is \<open>Some None\<close> when no branch assigns \<^verbatim>\<open>w_sample\<close>.  The branch \<^verbatim>\<open>"test"\<close>
  imports a module \<^verbatim>\<open>test\<close> that is not part of the repository and raises.
\<close>

definition call_optimizer ::
  "solver \<Rightarrow> eig_fun \<Rightarrow> string \<Rightarrow> vec option \<Rightarrow> mat option \<Rightarrow> real \<Rightarrow> real \<Rightarrow> real \<Rightarrow> real \<Rightarrow> real
     \<Rightarrow> vec option option" where
  "call_optimizer solve eig optimizerName meanVec sigMat maxAlloc retTarget longShort
       lambda_l1 lambda_l2 =
     (if optimizerName = ''minimumVariancePortfolio'' then do {
        sigMat \<leftarrow> sigMat;
        (w_sample, _) \<leftarrow> minimumVariancePortfolio solve eig sigMat maxAlloc longShort
                           lambda_l1 lambda_l2 [];
        Some (Some w_sample)
      } else if optimizerName = ''meanVariancePortfolioReturnsTarget'' then do {
        meanVec \<leftarrow> meanVec;
        sigMat \<leftarrow> sigMat;
        (w_sample, _) \<leftarrow> meanVariancePortfolioReturnsTarget solve eig meanVec sigMat retTarget
                           maxAlloc longShort lambda_l1 lambda_l2 [];
        Some (Some w_sample)
      } else if optimizerName = ''test'' then None
      else Some None)"

text \<open>
  Lines 590 to 593: the weights of the window's tickers are written into the positions
  of the full list of tickers, the others stay 0.  Reading \<^verbatim>\<open>w_sample\<close> raises when it was
  never assigned or when \<open>k\<close> is past its end.
\<close>

fun scatter :: "string list \<Rightarrow> string list \<Rightarrow> vec option \<Rightarrow> nat \<Rightarrow> vec option" where
  "scatter [] sample_stocks w_sample k = Some []"
| "scatter (c # cs) sample_stocks w_sample k =
     (if c \<in> set sample_stocks then
        (case w_sample of
           None \<Rightarrow> None
         | Some w \<Rightarrow> if k < length w
                     then map_option ((#) (w ! k)) (scatter cs sample_stocks w_sample (k + 1))
                     else None)
      else map_option ((#) 0) (scatter cs sample_stocks w_sample k))"

text \<open>
  The realized returns of the rows of a slice of \<^verbatim>\<open>logret\<close>.  \<^verbatim>\<open>np.nan_to_num(x, nan=0)\<close>
  turns NaN into 0 and the infinities into the largest and the smallest float; the
  exponential \<^verbatim>\<open>math.exp(1) ** (x / 100)\<close> of these two overflows to \<^verbatim>\<open>inf\<close> and underflows to
  0.  So the simple return of a log-return is \<open>100 (e\<^sup>x\<^sup>/\<^sup>1\<^sup>0\<^sup>0 - 1)\<close>, 0 for NaN, \<^verbatim>\<open>inf\<close> for \<^verbatim>\<open>inf\<close>
  and \<open>-100\<close> for \<^verbatim>\<open>-inf\<close>.  Each row of simple returns is multiplied with the weights, in
  the arithmetic of floats.
\<close>

fun simple_return :: "cell \<Rightarrow> cell" where
  "simple_return (Num x) = Num (100 * (exp 1 powr (x / 100) - 1))"
| "simple_return NaN = Num 0"
| "simple_return PlusInf = PlusInf"
| "simple_return MinusInf = Num (- 100)"

definition cell_dot :: "vec \<Rightarrow> cell list \<Rightarrow> cell" where
  "cell_dot w r = fold (\<lambda>(c, x) acc. cell_plus acc (cell_times c x)) (zip w r) (Num 0)"

definition realized :: "vec \<Rightarrow> cell list list \<Rightarrow> cell list option" where
  "realized w_opt rows =
     (let simple_returns = map (map simple_return) rows
      in if \<forall>r \<in> set simple_returns. length r = length w_opt
         then Some (map (cell_dot w_opt) simple_returns) else None)"

text \<open>
  \<^verbatim>\<open>w_all\<close> is \<^verbatim>\<open>None\<close>, then the first weight vector, then a matrix with one row per
  rebalance.  \<^verbatim>\<open>R\<close> is \<^verbatim>\<open>None\<close> or an array; \<^verbatim>\<open>np.hstack([None, x])\<close> is an array that
  starts with the object \<^verbatim>\<open>None\<close>, so an entry of \<open>R\<close> is a float (finite or not) or
  \<^verbatim>\<open>None\<close>.
\<close>

datatype weights = NoWeights | OneVector vec | Rows mat

type_synonym returns = "cell option list option"

definition stack_weights :: "weights \<Rightarrow> vec \<Rightarrow> weights" where
  "stack_weights w_all w_opt =
     (case w_all of
        NoWeights \<Rightarrow> OneVector w_opt
      | OneVector v \<Rightarrow> Rows [v, w_opt]
      | Rows M \<Rightarrow> Rows (M @ [w_opt]))"

definition backtest_step ::
  "solver \<Rightarrow> eig_fun \<Rightarrow> string \<Rightarrow> real option frame \<Rightarrow> cell frame \<Rightarrow> int \<Rightarrow> int \<Rightarrow> real \<Rightarrow> real
     \<Rightarrow> real \<Rightarrow> real \<Rightarrow> real \<Rightarrow> int \<Rightarrow> returns \<times> weights \<Rightarrow> (returns \<times> weights) option" where
  "backtest_step solve eig optimizerName df1 df_logret window_size d maxAlloc retTarget
       longShort lambda_l1 lambda_l2 i state = do {
     let (R, w_all) = state;
     let logret = frame_values df_logret;
     let n = int (length logret);
     (sample_stocks, meanVec, sigMat) \<leftarrow> window_stats df_logret n window_size i;
     w_sample \<leftarrow> call_optimizer solve eig optimizerName meanVec sigMat maxAlloc retTarget
                   longShort lambda_l1 lambda_l2;
     w_opt \<leftarrow> scatter (frame_columns df1) sample_stocks w_sample 0;
     let w_all = stack_weights w_all w_opt;
     if i + d < n then do {
       r \<leftarrow> realized w_opt (py_slice logret i (i + d));
       Some (case R of None \<Rightarrow> Some (map Some r) | Some R \<Rightarrow> Some (R @ map Some r), w_all)
     } else do {
       r \<leftarrow> realized w_opt (py_slice_from logret i);
       Some (case R of None \<Rightarrow> Some (None # map Some r) | Some R \<Rightarrow> Some (R @ map Some r), w_all)
     }
   }"

text \<open>
  \<^verbatim>\<open>rollingwindow_backtest\<close>.  The parameters \<^verbatim>\<open>riskAversion\<close>, \<^verbatim>\<open>meanQuantile\<close> and
  \<^verbatim>\<open>assetsOrder\<close> are not read by the program and are left out.
\<close>

definition rollingwindow_backtest ::
  "solver \<Rightarrow> eig_fun \<Rightarrow> string \<Rightarrow> real option frame \<Rightarrow> int \<Rightarrow> int \<Rightarrow> real \<Rightarrow> real \<Rightarrow> real \<Rightarrow> real
     \<Rightarrow> real \<Rightarrow> (returns \<times> cell frame \<times> weights \<times> string list) option" where
  "rollingwindow_backtest solve eig optimizerName df1 window_size rebalance_time maxAlloc
       retTarget longShort lambda_l1 lambda_l2 = do {
     let df_logret = log_returns df1;
     let logret = frame_values df_logret;
     let n = int (length logret);
     let d = rebalance_time;
     let start = window_size;
     rebalances \<leftarrow> py_range start n d;
     (R, w_all) \<leftarrow> fold (\<lambda>i state. state \<bind>
           backtest_step solve eig optimizerName df1 df_logret window_size d maxAlloc retTarget
             longShort lambda_l1 lambda_l2 i)
         rebalances (Some (None, NoWeights));
     let rownames = py_slice_from (frame_index df1) (start + 1);
     Some (R, df_logret, w_all, rownames)
   }"

section \<open>Notions of the specification\<close>

text \<open>
  The specification's first-difference operator: an \<open>(n - 1) \<times> n\<close> matrix whose row \<open>i\<close>
  has \<open>+1\<close> at column \<open>i\<close>, \<open>-1\<close> at column \<open>i + 1\<close> and 0 elsewhere.
\<close>

definition first_difference :: "nat \<Rightarrow> mat" where
  "first_difference n =
     map (\<lambda>i. map (\<lambda>j. if j = i then 1 else if j = i + 1 then - 1 else 0) [0..<n]) [0..<n - 1]"

text \<open>The matrix product and the product of a matrix with a vector, without shape checks.\<close>

definition mat_mul :: "mat \<Rightarrow> mat \<Rightarrow> mat" where
  "mat_mul A B = map (\<lambda>r. map (\<lambda>j. vdot r (column B j)) [0..<ncols B]) A"

definition mat_vec :: "mat \<Rightarrow> vec \<Rightarrow> vec" where
  "mat_vec A x = map (\<lambda>r. vdot r x) A"

text \<open>
  The composition of first-difference operators of successively smaller dimension:
  \<open>difference_composition n j\<close> is the operator on \<open>n\<close> columns multiplied from the left by
  the operators on \<open>n - 1\<close>, \<dots>, \<open>n - j\<close> columns.
\<close>

fun difference_composition :: "nat \<Rightarrow> nat \<Rightarrow> mat" where
  "difference_composition n 0 = first_difference n"
| "difference_composition n (Suc j) =
     mat_mul (first_difference (n - j - 1)) (difference_composition n j)"

text \<open>The difference of neighbouring entries of a vector; the finite difference of order
  \<open>k\<close> is its \<open>k\<close>-fold iterate.\<close>

definition vdiff :: "vec \<Rightarrow> vec" where
  "vdiff x = map2 (-) x (tl x)"

definition dims :: "nat \<Rightarrow> nat \<Rightarrow> 'a list list \<Rightarrow> bool" where
  "dims r c A \<longleftrightarrow> length A = r \<and> (\<forall>row \<in> set A. length row = c)"

text \<open>
  Stand-ins for the two library routines on inputs where their result is known.  The
  eigen-decomposition of a diagonal matrix has its diagonal entries as eigenvalues and
  the unit vectors as eigenvectors.  A solver run that ends with a given vector is the
  constant function.
\<close>

definition eig_diagonal :: eig_fun where
  "eig_diagonal A = Some (np_diag_of A, eye (length A))"

definition solver_returning :: "real option list \<Rightarrow> solver" where
  "solver_returning x p = Some x"



text \<open>The mean vector in the order of the assets in which a problem is posed.\<close>

definition ordered_means :: "vec \<Rightarrow> nat list \<Rightarrow> vec option" where
  "ordered_means meanVec assetsOrder =
     (if assetsOrder \<noteq> [] then take_idx meanVec assetsOrder else Some meanVec)"

text \<open>The weight vector that an optimizer takes from the solver's vector \<open>x\<close>, before the
  final indexing with \<^verbatim>\<open>assetsOrder\<close>.\<close>

definition chosen_weights :: "nat \<Rightarrow> real \<Rightarrow> real option list \<Rightarrow> vec" where
  "chosen_weights d longShort x =
     (if \<forall>e \<in> set x. e \<noteq> None \<and> e \<noteq> Some 0
      then (if longShort = 0 then map the x else take d (map the x))
      else replicate d (1 / real d))"

text \<open>
  The specification's window statistics: the trailing \<open>window_size\<close> rows of log-returns
  before the rebalance index \<open>i\<close>, restricted to the columns without a missing value in
  those rows.
\<close>

definition trailing_window :: "cell frame \<Rightarrow> int \<Rightarrow> int \<Rightarrow> mat" where
  "trailing_window df_logret window_size i =
     (let rows = py_slice (frame_values df_logret) (i - window_size) i;
          complete = filter (\<lambda>j. NaN \<notin> set (column rows j)) [0..<length (frame_columns df_logret)]
      in map (\<lambda>r. map (\<lambda>j. the (finite_value (r ! j))) complete) rows)"

text \<open>The tolerance that \<^verbatim>\<open>SymPDcovmatrix\<close> works with: the given one, or \<open>1e-04\<close> when it is
  missing or zero.\<close>

definition tolerance_in_effect :: "real option \<Rightarrow> real" where
  "tolerance_in_effect tol = (case tol of None \<Rightarrow> 1 / 10000 | Some t \<Rightarrow> if t = 0 then 1 / 10000 else t)"

text \<open>The number of entries of the realized-return series, and the weight history after
  \<open>j\<close> rebalances.\<close>

definition returns_length :: "returns \<Rightarrow> nat" where
  "returns_length R = (case R of None \<Rightarrow> 0 | Some l \<Rightarrow> length l)"

definition weights_after :: "nat \<Rightarrow> weights \<Rightarrow> bool" where
  "weights_after j w_all \<longleftrightarrow>
     (case w_all of
        NoWeights \<Rightarrow> j = 0
      | OneVector v \<Rightarrow> j = 1
      | Rows M \<Rightarrow> 2 \<le> j \<and> length M = j)"

text \<open>
  A price table for a run of the backtest: five dates, ticker \<open>A\<close> growing by the factor
  \<open>e\<^sup>1\<^sup>/\<^sup>4\<close> per date (a log-return of 25 percent), ticker \<open>B\<close> constant.  Every window of one row
  has the covariance matrix \<open>[[9/32, 3/8], [3/8, 1/2]]\<close>, whose eigenvalues are \<open>25/32\<close> and
  0 with the eigenvectors \<open>(3/5, 4/5)\<close> and \<open>(4/5, -3/5)\<close>; \<open>eig_of_window\<close> is the eigenvalue
  routine on that matrix.  \<open>two_ticker_logret\<close> is the table of log-returns of these prices.
\<close>

definition two_ticker_prices :: "real option frame" where
  "two_ticker_prices =
     \<lparr>frame_index = [''2020-01-02'', ''2020-01-03'', ''2020-01-06'', ''2020-01-07'', ''2020-01-08''],
      frame_columns = [''A'', ''B''],
      frame_values = [[Some 1, Some 1], [Some (exp (1 / 4)), Some 1], [Some (exp (1 / 2)), Some 1],
                      [Some (exp (3 / 4)), Some 1], [Some (exp 1), Some 1]]\<rparr>"

definition two_ticker_logret :: "cell frame" where
  "two_ticker_logret =
     \<lparr>frame_index = [''2020-01-03'', ''2020-01-06'', ''2020-01-07'', ''2020-01-08''],
      frame_columns = [''A'', ''B''],
      frame_values = [[Num 25, Num 0], [Num 25, Num 0], [Num 25, Num 0], [Num 25, Num 0]]\<rparr>"

definition eig_of_window :: eig_fun where
  "eig_of_window A = Some ([25 / 32, 0], [[3 / 5, 4 / 5], [4 / 5, - 3 / 5]])"

section \<open>Properties of Dmat\<close>

lemma Dmat_0: "Dmat n 0 = np_eye n n"
  by (simp add: Dmat.simps)

lemma np_eye_eye: "0 \<le> n \<Longrightarrow> np_eye n n = Some (eye (nat n))"
  by (simp add: np_eye_def eye_def)

lemma fold_set_next:
  "m \<le> length E \<Longrightarrow>
   fold (\<lambda>i D. D[i := (D ! i)[Suc i := - 1]]) [0..<m] E =
   map (\<lambda>i. if i < m then (E ! i)[Suc i := - 1] else E ! i) [0..<length E]"
proof (induction m)
  case 0
  then show ?case by (simp add: map_nth)
next
  case (Suc m)
  then show ?case
    by (auto simp: nth_list_update intro!: nth_equalityI)
qed

lemma Dmat_1: "1 \<le> n \<Longrightarrow> Dmat n 1 = Some (first_difference (nat n))"
proof -
  assume n: "1 \<le> n"
  have "nat (n - 1) = nat n - 1" by simp
  then show ?thesis using n
    by (subst Dmat.simps)
      (auto simp: np_eye_def fold_set_next first_difference_def nth_list_update
        intro!: nth_equalityI)
qed

lemma vdot_sum: "length a = length b \<Longrightarrow> vdot a b = (\<Sum>i<length a. a ! i * b ! i)"
  by (simp add: vdot_def sum_list_sum_nth atLeast0LessThan)

lemma vdot_map_upt:
  "length y = m \<Longrightarrow> vdot (map f [0..<m]) y = (\<Sum>j<m. f j * y ! j)"
  by (simp add: vdot_sum)

lemma length_vdiff [simp]: "length (vdiff x) = length x - 1"
  by (simp add: vdiff_def)

lemma nth_vdiff: "Suc i < length x \<Longrightarrow> vdiff x ! i = x ! i - x ! Suc i"
  by (simp add: vdiff_def nth_tl)

lemma mat_vec_first_difference: "mat_vec (first_difference (length y)) y = vdiff y"
proof (rule nth_equalityI)
  show "length (mat_vec (first_difference (length y)) y) = length (vdiff y)"
    by (simp add: mat_vec_def first_difference_def)
next
  fix i assume "i < length (mat_vec (first_difference (length y)) y)"
  then have i: "Suc i < length y" by (simp add: mat_vec_def first_difference_def)
  have "(\<Sum>j<length y. (if j = i then 1 else if j = i + 1 then - 1 else 0) * y ! j)
      = (\<Sum>j<length y. (if j = i then y ! j else 0) - (if j = Suc i then y ! j else 0))"
    by (rule sum.cong) auto
  also have "\<dots> = y ! i - y ! Suc i"
    using i by (simp add: sum_subtractf)
  finally show "mat_vec (first_difference (length y)) y ! i = vdiff y ! i"
    using i by (simp add: mat_vec_def first_difference_def vdot_map_upt nth_vdiff)
qed

lemma ncols_dims: "dims r c A \<Longrightarrow> 0 < r \<Longrightarrow> ncols A = c"
  by (cases A) (auto simp: dims_def ncols_def)

lemma vdot_row_mat:
  assumes "dims (length r) c B" "length x = c" "0 < length r"
  shows "vdot (map (\<lambda>j. vdot r (column B j)) [0..<ncols B]) x = vdot r (mat_vec B x)"
proof -
  have nc: "ncols B = c" using assms ncols_dims by blast
  have len: "length B = length r" and rows: "\<And>i. i < length r \<Longrightarrow> length (B ! i) = c"
    using assms by (auto simp: dims_def)
  have "vdot (map (\<lambda>j. vdot r (column B j)) [0..<ncols B]) x
      = (\<Sum>j<c. (\<Sum>i<length r. r ! i * B ! i ! j) * x ! j)"
    using assms len by (simp add: vdot_sum nc column_def)
  also have "\<dots> = (\<Sum>j<c. \<Sum>i<length r. r ! i * (B ! i ! j * x ! j))"
    by (simp add: sum_distrib_right mult.assoc)
  also have "\<dots> = (\<Sum>i<length r. \<Sum>j<c. r ! i * (B ! i ! j * x ! j))"
    by (rule sum.swap)
  also have "\<dots> = (\<Sum>i<length r. r ! i * (\<Sum>j<c. B ! i ! j * x ! j))"
    by (simp add: sum_distrib_left)
  also have "\<dots> = vdot r (mat_vec B x)"
    using assms len rows by (simp add: vdot_sum mat_vec_def)
  finally show ?thesis .
qed

lemma mat_vec_mat_mul:
  assumes "dims m c B" "\<forall>r \<in> set A. length r = m" "length x = c" "0 < m"
  shows "mat_vec (mat_mul A B) x = mat_vec A (mat_vec B x)"
proof -
  have "vdot (map (\<lambda>j. vdot r (column B j)) [0..<ncols B]) x = vdot r (mat_vec B x)"
    if "r \<in> set A" for r
    using that assms vdot_row_mat [of r c B x] by auto
  then show ?thesis by (simp add: mat_vec_def mat_mul_def)
qed

lemma dims_first_difference: "dims (n - 1) n (first_difference n)"
  by (simp add: dims_def first_difference_def)

lemma dims_mat_mul: "dims m c B \<Longrightarrow> 0 < m \<Longrightarrow> length A = r \<Longrightarrow> dims r c (mat_mul A B)"
  using ncols_dims [of m c B] by (auto simp: dims_def mat_mul_def)

lemma dims_difference_composition:
  "j < n \<Longrightarrow> dims (n - j - 1) n (difference_composition n j)"
proof (induction j)
  case 0
  then show ?case using dims_first_difference [of n] by simp
next
  case (Suc j)
  then have "dims (n - j - 1) n (difference_composition n j)" and "0 < n - j - 1" by simp_all
  then show ?case
    using dims_mat_mul [of "n - j - 1" n "difference_composition n j" "first_difference (n - j - 1)" "n - Suc j - 1"]
    by (simp add: first_difference_def)
qed

lemma mat_vec_difference_composition:
  "j < n \<Longrightarrow> length x = n \<Longrightarrow> mat_vec (difference_composition n j) x = (vdiff ^^ Suc j) x"
proof (induction j)
  case 0
  then show ?case using mat_vec_first_difference [of x] by simp
next
  case (Suc j)
  have d: "dims (n - j - 1) n (difference_composition n j)"
    using Suc.prems dims_difference_composition by simp
  have pos: "0 < n - j - 1" using Suc.prems by simp
  have len: "length ((vdiff ^^ Suc j) x) = n - j - 1"
    using Suc d by (metis dims_def length_map mat_vec_def Suc_lessD)
  have "mat_vec (difference_composition n (Suc j)) x
      = mat_vec (first_difference (n - j - 1)) (mat_vec (difference_composition n j) x)"
    using mat_vec_mat_mul [OF d _ Suc.prems(2) pos, of "first_difference (n - j - 1)"]
    by (simp add: first_difference_def)
  also have "\<dots> = vdiff ((vdiff ^^ Suc j) x)"
    using Suc len mat_vec_first_difference [of "(vdiff ^^ Suc j) x"] by simp
  finally show ?case by simp
qed


lemma np_dot_mat_mul: "\<forall>r \<in> set A. length r = length B \<Longrightarrow> np_dot A B = Some (mat_mul A B)"
  by (simp add: np_dot_def mat_mul_def)

lemma Dmat_loop:
  "j < nat n \<Longrightarrow>
   fold (\<lambda>i acc. do { D \<leftarrow> acc; Dn \<leftarrow> Dmat (n - int i - 1) 1; np_dot Dn D })
     [0..<j] (Some (first_difference (nat n)))
   = Some (difference_composition (nat n) j)"
proof (induction j)
  case 0
  then show ?case by simp
next
  case (Suc j)
  have d: "dims (nat n - j - 1) (nat n) (difference_composition (nat n) j)"
    using Suc.prems dims_difference_composition by simp
  have Dn: "Dmat (n - int j - 1) 1 = Some (first_difference (nat n - j - 1))"
    using Suc.prems Dmat_1 [of "n - int j - 1"] by (simp add: nat_diff_distrib')
  have "np_dot (first_difference (nat n - j - 1)) (difference_composition (nat n) j)
      = Some (mat_mul (first_difference (nat n - j - 1)) (difference_composition (nat n) j))"
    using d by (intro np_dot_mat_mul) (auto simp: first_difference_def dims_def)
  with Suc Dn show ?case by simp
qed

lemma Dmat_k:
  assumes "1 < k" "k \<le> n"
  shows "Dmat n k = Some (difference_composition (nat n) (nat (k - 1)))"
proof -
  have "Dmat n k =
      fold (\<lambda>i acc. do { D \<leftarrow> acc; Dn \<leftarrow> Dmat (n - int i - 1) 1; np_dot Dn D })
        [0..<nat (k - 1)] (Dmat n 1)"
    using assms by (subst Dmat.simps) simp
  also have "Dmat n 1 = Some (first_difference (nat n))"
    using assms by (simp add: Dmat_1)
  finally show ?thesis
    using assms Dmat_loop [of "nat (k - 1)" n] by simp
qed

lemma np_dot_mv_mat_vec: "\<forall>r \<in> set A. length r = length x \<Longrightarrow> np_dot_mv A x = Some (mat_vec A x)"
  by (simp add: np_dot_mv_def mat_vec_def)

text \<open>
  Claim C9.  For \<open>n \<ge> 1\<close>, \<open>Dmat n 0\<close> is the \<open>n \<times> n\<close> identity.  For \<open>n \<ge> 2\<close>, \<open>Dmat n 1\<close> is the
  \<open>(n - 1) \<times> n\<close> first-difference matrix, which maps a 3-vector to \<open>[x0 - x1, x1 - x2]\<close>.
  For \<open>1 < k \<le> n\<close> (a shape \<open>(n - k) \<times> n\<close> needs \<open>k \<le> n\<close>), \<open>Dmat n k\<close> is the first-difference
  matrix on \<open>n\<close> columns multiplied from the left by \<open>k - 1\<close> first-difference matrices of
  successively smaller dimension; it has \<open>n - k\<close> rows of length \<open>n\<close> and maps a vector to its
  finite difference of order \<open>k\<close>.
\<close>

theorem Dmat_spec:
  "(1 \<le> n \<longrightarrow> Dmat n 0 = Some (eye (nat n))) \<and>
   (2 \<le> n \<longrightarrow> Dmat n 1 = Some (first_difference (nat n))) \<and>
   np_dot_mv (first_difference 3) [x0, x1, x2] = Some [x0 - x1, x1 - x2] \<and>
   (1 < k \<and> k \<le> n \<longrightarrow>
      (\<exists>D. Dmat n k = Some D \<and> D = difference_composition (nat n) (nat (k - 1)) \<and>
           length D = nat (n - k) \<and> (\<forall>r \<in> set D. length r = nat n) \<and>
           (\<forall>x. length x = nat n \<longrightarrow> np_dot_mv D x = Some ((vdiff ^^ nat k) x))))"
proof (intro conjI impI)
  assume "1 \<le> n"
  then show "Dmat n 0 = Some (eye (nat n))" by (simp add: Dmat_0 np_eye_eye)
next
  assume "2 \<le> n"
  then show "Dmat n 1 = Some (first_difference (nat n))" by (simp add: Dmat_1)
next
  have "first_difference 3 = [[1, - 1, 0], [0, 1, - 1]]"
    by (simp add: first_difference_def upt_rec numeral_eq_Suc)
  then show "np_dot_mv (first_difference 3) [x0, x1, x2] = Some [x0 - x1, x1 - x2]"
    by (simp add: np_dot_mv_def vdot_def)
next
  assume k: "1 < k \<and> k \<le> n"
  let ?D = "difference_composition (nat n) (nat (k - 1))"
  have j: "nat (k - 1) < nat n" using k by simp
  have d: "dims (nat (n - k)) (nat n) ?D"
    using dims_difference_composition [OF j] k by (simp add: nat_diff_distrib')
  have mv: "np_dot_mv ?D x = Some ((vdiff ^^ nat k) x)" if "length x = nat n" for x
  proof -
    have "Suc (nat (k - 1)) = nat k" using k by arith
    then show ?thesis
      using d that mat_vec_difference_composition [OF j that]
      by (simp add: np_dot_mv_mat_vec dims_def)
  qed
  show "\<exists>D. Dmat n k = Some D \<and> D = ?D \<and> length D = nat (n - k) \<and>
      (\<forall>r \<in> set D. length r = nat n) \<and>
      (\<forall>x. length x = nat n \<longrightarrow> np_dot_mv D x = Some ((vdiff ^^ nat k) x))"
    using k d mv by (simp add: Dmat_k dims_def)
qed

theorem Dmat_spec_witness:
  "(1::int) \<le> 4 \<and> Dmat 4 0 = Some [[1, 0, 0, 0], [0, 1, 0, 0], [0, 0, 1, 0], [0, 0, 0, 1]] \<and>
   (2::int) \<le> 4 \<and> Dmat 4 1 = Some [[1, - 1, 0, 0], [0, 1, - 1, 0], [0, 0, 1, - 1]] \<and>
   (1::int) < 2 \<and> (2::int) \<le> 4 \<and> Dmat 4 2 = Some [[1, - 2, 1, 0], [0, 1, - 2, 1]] \<and>
   np_dot_mv [[1, - 2, 1, 0], [0, 1, - 2, 1]] [1, 4, 9, 16] = Some [2, 2]"
proof -
  have e: "eye 4 = [[1, 0, 0, 0], [0, 1, 0, 0], [0, 0, 1, 0], [0, 0, 0, 1]]"
    by code_simp
  have f: "difference_composition 4 1 = [[1, - 2, 1, 0], [0, 1, - 2, 1]]"
    by code_simp
  have g: "first_difference 4 = [[1, - 1, 0, 0], [0, 1, - 1, 0], [0, 0, 1, - 1]]"
    by code_simp
  have h: "(vdiff ^^ 2) [1, 4, 9, 16] = [2, 2]"
    by (simp add: vdiff_def numeral_2_eq_2)
  show ?thesis
    using Dmat_spec [of 4 0 0 0 2] e f g h by simp
qed

section \<open>Properties of the quadratic programs\<close>

lemma minvar_problem_d:
  "minvar_problem eig sigMat longShort maxAlloc lambda_l1 lambda_l2 assetsOrder = Some (d, S, p)
   \<Longrightarrow> d = length sigMat"
  by (auto simp: minvar_problem_def Let_def bind_eq_Some_conv split: if_splits prod.splits)

lemma meanvar_problem_d:
  "meanvar_problem eig meanVec sigMat retTarget longShort maxAlloc lambda_l1 lambda_l2 assetsOrder
     = Some (d, S, p) \<Longrightarrow> d = length sigMat"
  by (auto simp: meanvar_problem_def meanvar_qp_def Let_def bind_eq_Some_conv
      split: if_splits prod.splits)

lemma minvar_long_only_q:
  assumes "minvar_problem eig sigMat 0 maxAlloc lambda_l1 lambda_l2 assetsOrder = Some (d, S, p)"
  shows "qp_q p = replicate d lambda_l1"
  using assms
  by (auto simp: minvar_problem_def Let_def bind_eq_Some_conv scal_def np_ones_def np_zeros_def
      split: if_splits prod.splits)

lemma minvar_long_short_row:
  assumes "minvar_problem eig sigMat longShort maxAlloc lambda_l1 lambda_l2 assetsOrder
      = Some (d, S, p)"
    and "longShort \<noteq> 0"
  shows "hd (qp_A p) = np_zeros d @ np_ones d @ np_zeros d
     \<and> hd (qp_u p) = Fin (1 + \<bar>longShort\<bar>) \<and> hd (qp_l p) = Fin 0"
  using assms
  by (auto simp: minvar_problem_def Let_def bind_eq_Some_conv np_vstack_def
      split: if_splits prod.splits)

lemma meanvar_long_short_row:
  assumes "meanvar_problem eig meanVec sigMat retTarget longShort maxAlloc lambda_l1 lambda_l2
      assetsOrder = Some (d, S, p)"
    and "longShort \<noteq> 0"
  shows "hd (qp_A p) = np_zeros d @ np_ones d @ np_zeros d
     \<and> hd (qp_u p) = Fin (1 + \<bar>longShort\<bar>) \<and> hd (qp_l p) = Fin 0"
  using assms
  by (auto simp: meanvar_problem_def meanvar_qp_def Let_def bind_eq_Some_conv np_vstack_def
      split: if_splits prod.splits)

lemma daily_target_0: "daily_target 0 = Float 0"
  by (simp add: daily_target_def)

lemma clamp_zero: "clamp_target [0, 0] (Float 0) = Some (Float 0)"
  by code_simp

subsection \<open>The linear objective of the long-only minimum-variance problem\<close>

text \<open>
  Claim C5, as amended.  In the long-only minimum-variance formulation the linear
  objective vector \<open>q\<close> handed to the solver is \<open>+lambda_l1\<close> times the all-ones vector, for
  every \<open>lambda_l1\<close>; it is the zero vector when \<open>lambda_l1 = 0\<close>.  (The program negates
  \<open>-lambda_l1\<close> times the ones vector when it passes it to the solver.)
\<close>

theorem minvar_long_only_objective:
  "minvar_problem eig sigMat 0 maxAlloc lambda_l1 lambda_l2 assetsOrder = Some (d, S, p) \<Longrightarrow>
   qp_q p = scal lambda_l1 (np_ones d) \<and> (lambda_l1 = 0 \<longrightarrow> qp_q p = np_zeros d)"
  using minvar_long_only_q [of eig sigMat maxAlloc lambda_l1 lambda_l2 assetsOrder d S p]
  by (simp add: scal_def np_ones_def np_zeros_def)

theorem minvar_long_only_objective_witness:
  "minvar_problem eig_diagonal [[1, 0], [0, 1]] 0 1 (1 / 2) 0 [] =
     Some (2, [[1, 0], [0, 1]],
       \<lparr>qp_P = [[1, 0], [0, 1]], qp_q = [1 / 2, 1 / 2], qp_A = [[1, 1], [1, 0], [0, 1]],
        qp_l = [Fin 1, Fin 0, Fin 0], qp_u = [Fin 1, Fin 1, Fin 1]\<rparr>)
   \<and> [1 / 2, 1 / 2] = scal (1 / 2) (np_ones 2)"
proof -
  have e: "minvar_problem eig_diagonal [[1, 0], [0, 1]] 0 1 (1 / 2) 0 [] =
     Some (2, [[1, 0], [0, 1]],
       \<lparr>qp_P = [[1, 0], [0, 1]], qp_q = [1 / 2, 1 / 2], qp_A = [[1, 1], [1, 0], [0, 1]],
        qp_l = [Fin 1, Fin 0, Fin 0], qp_u = [Fin 1, Fin 1, Fin 1]\<rparr>)"
    by code_simp
  show ?thesis
    using minvar_long_only_objective [OF e] e by simp
qed

text \<open>The claim as stated fails: with \<open>lambda_l1 = 1\<close> on two assets \<open>q\<close> is \<open>[1, 1]\<close>, not
  \<open>[-1, -1]\<close>.\<close>

theorem minvar_long_only_objective_counterexample:
  "map_option (qp_q \<circ> snd \<circ> snd) (minvar_problem eig_diagonal [[1, 0], [0, 1]] 0 1 1 0 [])
     = Some [1, 1]
   \<and> map_option (qp_q \<circ> snd \<circ> snd) (minvar_problem eig_diagonal [[1, 0], [0, 1]] 0 1 1 0 [])
     \<noteq> Some (scal (- 1) (np_ones 2))"
  by code_simp

subsection \<open>The exposure row of the long-short problems\<close>

lemma minvar_half:
  "minvar_problem eig_diagonal [[1, 0], [0, 1]] (1 / 2) 1 0 0 [] =
     Some (2, [[1, 0], [0, 1]],
       \<lparr>qp_P = [[9 / 10, 0, 0, 0, 0, 0], [0, 9 / 10, 0, 0, 0, 0], [0, 0, 1 / 10, 0, 0, 0],
               [0, 0, 0, 1 / 10, 0, 0], [0, 0, 0, 0, 1 / 10, 0], [0, 0, 0, 0, 0, 1 / 10]],
        qp_q = [0, 0, 0, 0, 0, 0],
        qp_A = [[0, 0, 1, 1, 0, 0], [1, 0, - 1, 0, 1, 0], [0, 1, 0, - 1, 0, 1],
                [1, 1, 0, 0, 0, 0], [1, 0, 0, 0, 0, 0], [0, 1, 0, 0, 0, 0],
                [0, 0, 1, 0, 0, 0], [0, 0, 0, 1, 0, 0], [0, 0, 0, 0, 1, 0], [0, 0, 0, 0, 0, 1]],
        qp_l = [Fin 0, Fin 0, Fin 0, Fin 1, Fin (- 1 / 2), Fin (- 1 / 2), Fin 0, Fin 0, Fin 0, Fin 0],
        qp_u = [Fin (3 / 2), Fin 0, Fin 0, Fin 1, Fin 1, Fin 1, Fin 1, Fin 1, Fin 1, Fin 1]\<rparr>)"
  by code_simp

lemma meanvar_qp_half:
  "meanvar_qp eig_diagonal [0, 0] [[1, 0], [0, 1]] (Float 0) (1 / 2) 1 0 0 [] =
     Some (2, [[1, 0], [0, 1]],
       \<lparr>qp_P = [[9 / 10, 0, 0, 0, 0, 0], [0, 9 / 10, 0, 0, 0, 0], [0, 0, 1 / 10, 0, 0, 0],
               [0, 0, 0, 1 / 10, 0, 0], [0, 0, 0, 0, 1 / 10, 0], [0, 0, 0, 0, 0, 1 / 10]],
        qp_q = [0, 0, 0, 0, 0, 0],
        qp_A = [[0, 0, 1, 1, 0, 0], [0, 0, 0, 0, 0, 0], [1, 0, - 1, 0, 1, 0], [0, 1, 0, - 1, 0, 1],
                [1, 1, 0, 0, 0, 0], [1, 0, 0, 0, 0, 0], [0, 1, 0, 0, 0, 0],
                [0, 0, 1, 0, 0, 0], [0, 0, 0, 1, 0, 0], [0, 0, 0, 0, 1, 0], [0, 0, 0, 0, 0, 1]],
        qp_l = [Fin 0, NegInf, Fin 0, Fin 0, Fin 1, Fin (- 1 / 2), Fin (- 1 / 2), Fin 0, Fin 0,
                Fin 0, Fin 0],
        qp_u = [Fin (3 / 2), Fin 0, Fin 0, Fin 0, Fin 1, Fin 1, Fin 1, Fin 1, Fin 1, Fin 1, Fin 1]\<rparr>)"
  by code_simp

lemma meanvar_half:
  "meanvar_problem eig_diagonal [0, 0] [[1, 0], [0, 1]] 0 (1 / 2) 1 0 0 [] =
   meanvar_qp eig_diagonal [0, 0] [[1, 0], [0, 1]] (Float 0) (1 / 2) 1 0 0 []"
  by (simp add: meanvar_problem_def daily_target_0 clamp_zero)

text \<open>
  Claim C4, as amended.  For every long-short invocation (\<open>longShort \<noteq> 0\<close>) of either
  optimizer, the first row of the constraint system handed to the solver has
  coefficient 1 on every entry of the block \<open>u\<close> and 0 on every entry of the blocks \<open>w\<close>
  and \<open>v\<close>, with lower bound 0 and upper bound \<open>1 + |longShort|\<close>: it bounds the sum over
  \<open>u\<close> alone.
\<close>

theorem long_short_exposure_row:
  "longShort \<noteq> 0 \<Longrightarrow>
   minvar_problem eig sigMat longShort maxAlloc lambda_l1 lambda_l2 assetsOrder = Some (d, S, p)
   \<or> meanvar_problem eig meanVec sigMat retTarget longShort maxAlloc lambda_l1 lambda_l2 assetsOrder
       = Some (d, S, p) \<Longrightarrow>
   hd (qp_A p) = np_zeros d @ np_ones d @ np_zeros d \<and> hd (qp_l p) = Fin 0
   \<and> hd (qp_u p) = Fin (1 + \<bar>longShort\<bar>)"
  using minvar_long_short_row [of eig sigMat longShort maxAlloc lambda_l1 lambda_l2 assetsOrder d S p]
    meanvar_long_short_row [of eig meanVec sigMat retTarget longShort maxAlloc lambda_l1 lambda_l2
      assetsOrder d S p]
  by auto

theorem long_short_exposure_row_witness:
  "(1 / 2 :: real) \<noteq> 0
   \<and> map_option (hd \<circ> qp_A \<circ> snd \<circ> snd)
       (minvar_problem eig_diagonal [[1, 0], [0, 1]] (1 / 2) 1 0 0 [])
       = Some [0, 0, 1, 1, 0, 0]
   \<and> map_option (hd \<circ> qp_u \<circ> snd \<circ> snd)
       (minvar_problem eig_diagonal [[1, 0], [0, 1]] (1 / 2) 1 0 0 [])
       = Some (Fin (3 / 2))
   \<and> map_option (hd \<circ> qp_A \<circ> snd \<circ> snd)
       (meanvar_problem eig_diagonal [0, 0] [[1, 0], [0, 1]] 0 (1 / 2) 1 0 0 [])
       = Some [0, 0, 1, 1, 0, 0]
   \<and> map_option (hd \<circ> qp_u \<circ> snd \<circ> snd)
       (meanvar_problem eig_diagonal [0, 0] [[1, 0], [0, 1]] 0 (1 / 2) 1 0 0 [])
       = Some (Fin (3 / 2))"
proof -
  have n: "(1 / 2 :: real) \<noteq> 0" by simp
  have z: "np_zeros 2 @ np_ones 2 @ np_zeros 2 = [0, 0, 1, 1, 0, 0]"
    by code_simp
  show ?thesis
    using long_short_exposure_row [OF n disjI1 [OF minvar_half]]
      long_short_exposure_row [OF n disjI2 [OF meanvar_half [unfolded meanvar_qp_half]]]
    by (simp add: minvar_half meanvar_half meanvar_qp_half z)
qed

text \<open>The claim as stated fails: on two assets with \<open>longShort = 1/2\<close> the constraint matrix
  has the ten rows below, and the row of \<open>\<one>\<^sup>T(u + v)\<close>, with ones on both blocks \<open>u\<close> and \<open>v\<close>,
  is not among them.\<close>

theorem long_short_exposure_row_counterexample:
  "map_option (qp_A \<circ> snd \<circ> snd) (minvar_problem eig_diagonal [[1, 0], [0, 1]] (1 / 2) 1 0 0 [])
     = Some [[0, 0, 1, 1, 0, 0], [1, 0, - 1, 0, 1, 0], [0, 1, 0, - 1, 0, 1],
             [1, 1, 0, 0, 0, 0], [1, 0, 0, 0, 0, 0], [0, 1, 0, 0, 0, 0],
             [0, 0, 1, 0, 0, 0], [0, 0, 0, 1, 0, 0], [0, 0, 0, 0, 1, 0], [0, 0, 0, 0, 0, 1]]
   \<and> np_zeros 2 @ np_ones 2 @ np_ones 2 = [0, 0, 1, 1, 1, 1]
   \<and> [0, 0, 1, 1, 1, 1] \<notin> set [[0, 0, 1, 1, 0, 0], [1, 0, - 1, 0, 1, 0], [0, 1, 0, - 1, 0, 1],
             [1, 1, 0, 0, 0, 0], [1, 0, 0, 0, 0, 0], [0, 1, 0, 0, 0, 0],
             [0, 0, 1, 0, 0, 0], [0, 0, 0, 1, 0, 0], [0, 0, 0, 0, 1, 0], [0, 0, 0, 0, 0, (1::real)]]"
proof -
  have z: "np_zeros 2 @ np_ones 2 @ np_ones 2 = [0, 0, 1, 1, 1, 1]"
    by code_simp
  show ?thesis by (simp add: minvar_half z)
qed

subsection \<open>The fallback to equal weights\<close>

lemma solve_and_finish_weights:
  assumes "solve_and_finish solve longShort assetsOrder (d, S, p) = Some (w, v)"
  shows "\<exists>x. solve p = Some x \<and>
           w = (if assetsOrder = [] then chosen_weights d longShort x
                else map (\<lambda>j. chosen_weights d longShort x ! j) assetsOrder)"
  using assms
  by (auto simp: solve_and_finish_def chosen_weights_def np_all_def np_ones_def Let_def
      bind_eq_Some_conv take_idx_def split: if_splits)

lemma minvar_one_zero:
  "minimumVariancePortfolio (solver_returning [Some 1, Some 0]) eig_diagonal [[1, 0], [0, 1]]
     0 1 0 0 [] = Some ([1 / 2, 1 / 2], 1 / 2)"
  by code_simp

text \<open>
  Claim C2, as amended.  In both optimizers the weight vector is \<open>chosen_weights\<close> of the
  solver's vector \<open>x\<close> for the problem the optimizer built (indexed with \<^verbatim>\<open>assetsOrder\<close>
  at the end when one is given): the equal-weight vector \<open>1/d\<close> is substituted exactly
  when at least one entry of \<open>x\<close> is zero or \<^verbatim>\<open>None\<close>, anywhere in \<open>(w, u, v)\<close> in the
  long-short case; when every entry is nonzero, \<open>x\<close> (its first \<open>d\<close> entries in the
  long-short case) is used.
\<close>

theorem equal_weight_fallback:
  "minimumVariancePortfolio solve eig sigMat longShort maxAlloc lambda_l1 lambda_l2 assetsOrder
     = Some (w, v)
   \<or> meanVariancePortfolioReturnsTarget solve eig meanVec sigMat retTarget longShort maxAlloc
       lambda_l1 lambda_l2 assetsOrder = Some (w, v) \<Longrightarrow>
   \<exists>d S p x.
     (minvar_problem eig sigMat longShort maxAlloc lambda_l1 lambda_l2 assetsOrder = Some (d, S, p)
      \<or> meanvar_problem eig meanVec sigMat retTarget longShort maxAlloc lambda_l1 lambda_l2
          assetsOrder = Some (d, S, p))
     \<and> d = length sigMat \<and> solve p = Some x
     \<and> w = (if assetsOrder = [] then chosen_weights d longShort x
            else map (\<lambda>j. chosen_weights d longShort x ! j) assetsOrder)"
proof (elim disjE)
  assume "minimumVariancePortfolio solve eig sigMat longShort maxAlloc lambda_l1 lambda_l2
      assetsOrder = Some (w, v)"
  then obtain d S p where
    prob: "minvar_problem eig sigMat longShort maxAlloc lambda_l1 lambda_l2 assetsOrder
      = Some (d, S, p)"
    and fin: "solve_and_finish solve longShort assetsOrder (d, S, p) = Some (w, v)"
    by (auto simp: minimumVariancePortfolio_def bind_eq_Some_conv)
  show ?thesis
    using solve_and_finish_weights [OF fin] minvar_problem_d [OF prob] prob by blast
next
  assume "meanVariancePortfolioReturnsTarget solve eig meanVec sigMat retTarget longShort maxAlloc
      lambda_l1 lambda_l2 assetsOrder = Some (w, v)"
  then obtain d S p where
    prob: "meanvar_problem eig meanVec sigMat retTarget longShort maxAlloc lambda_l1 lambda_l2
        assetsOrder = Some (d, S, p)"
    and fin: "solve_and_finish solve longShort assetsOrder (d, S, p) = Some (w, v)"
    by (auto simp: meanVariancePortfolioReturnsTarget_def bind_eq_Some_conv)
  show ?thesis
    using solve_and_finish_weights [OF fin] meanvar_problem_d [OF prob] prob by blast
qed

theorem equal_weight_fallback_witness:
  "minimumVariancePortfolio (solver_returning [Some 1, Some 0]) eig_diagonal [[1, 0], [0, 1]]
     0 1 0 0 [] = Some ([1 / 2, 1 / 2], 1 / 2)
   \<and> [1 / 2, 1 / 2] = chosen_weights 2 0 [Some 1, Some 0]"
proof -
  from equal_weight_fallback [where meanVec = "[]" and retTarget = 0,
        OF disjI1 [OF minvar_one_zero]]
  obtain d :: nat and p :: qp and x where d: "d = length [[1, 0], [0, 1 :: real]]"
      and x: "solver_returning [Some 1, Some 0] p = Some x"
      and w: "[1 / 2, 1 / 2] = (if ([]::nat list) = [] then chosen_weights d 0 x
                                else map (\<lambda>j. chosen_weights d 0 x ! j) [])"
    by (elim exE conjE)
  have "x = [Some 1, Some 0]" using x by (simp add: solver_returning_def)
  moreover have "d = 2" using d by simp
  ultimately have "[1 / 2, 1 / 2] = chosen_weights 2 0 [Some 1, Some 0]"
    using w by (simp only: simp_thms if_True)
  with minvar_one_zero show ?thesis by (rule conjI)
qed

text \<open>The claim as stated fails: the solver's vector \<open>[1, 0]\<close> has a nonzero entry, and the
  long-only optimizer returns the equal weights \<open>[1/2, 1/2]\<close>, not \<open>[1, 0]\<close>.\<close>

theorem equal_weight_fallback_counterexample:
  "minimumVariancePortfolio (solver_returning [Some 1, Some 0]) eig_diagonal [[1, 0], [0, 1]]
     0 1 0 0 [] = Some ([1 / 2, 1 / 2], 1 / 2)
   \<and> map_option fst
       (minimumVariancePortfolio (solver_returning [Some 1, Some 0]) eig_diagonal [[1, 0], [0, 1]]
          0 1 0 0 []) \<noteq> Some (map the [Some 1, Some 0])"
  by (simp add: minvar_one_zero)

subsection \<open>The final indexing with the asset order\<close>


subsection \<open>Clamping of the target return\<close>

lemma fold_min_le: "fold min r (x::real) \<le> x"
proof (induction r arbitrary: x)
  case Nil
  show ?case by simp
next
  case (Cons a r)
  have "fold min r (min a x) \<le> min a x" by (rule Cons.IH)
  also have "\<dots> \<le> x" by simp
  finally show ?case by simp
qed

lemma fold_max_ge: "(x::real) \<le> fold max r x"
proof (induction r arbitrary: x)
  case Nil
  show ?case by simp
next
  case (Cons a r)
  have "x \<le> max a x" by simp
  also have "\<dots> \<le> fold max r (max a x)" by (rule Cons.IH)
  finally show ?case by simp
qed

lemma py_min_le_py_max: "py_min xs = Some lo \<Longrightarrow> py_max xs = Some hi \<Longrightarrow> lo \<le> hi"
proof (cases xs)
  case Nil
  then show "py_min xs = Some lo \<Longrightarrow> lo \<le> hi" by (simp add: py_min_def)
next
  case (Cons x r)
  assume "py_min xs = Some lo" "py_max xs = Some hi"
  then have "lo = fold min r x" "hi = fold max r x"
    using Cons by (simp_all add: py_min_def py_max_def)
  then show "lo \<le> hi"
    using fold_min_le [of r x] fold_max_ge [of x r] by simp
qed

lemma clamp_target_above:
  assumes "py_min xs = Some lo" and "py_max xs = Some hi" and "number_less (Float hi) t"
  shows "clamp_target xs t = Some (Float hi)"
proof -
  have "lo \<le> hi" using assms(1,2) by (rule py_min_le_py_max)
  moreover have "\<not> number_less t (Float hi)"
    using assms(3) by (auto simp: number_less_def)
  ultimately show ?thesis
    using assms by (auto simp: clamp_target_def py_min2_def py_max2_def number_less_def)
qed

lemma clamp_target_below:
  assumes "py_min xs = Some lo" and "py_max xs = Some hi" and "number_less t (Float lo)"
  shows "clamp_target xs t = Some (Float lo)"
proof -
  have le: "lo \<le> hi" using assms(1,2) by (rule py_min_le_py_max)
  then have "number_less t (Float hi)"
    using assms(3) by (auto simp: number_less_def)
  moreover have "\<not> number_less (Float lo) t"
    using assms(3) by (auto simp: number_less_def)
  ultimately show ?thesis
    using assms by (simp add: clamp_target_def py_min2_def py_max2_def)
qed

lemma clamp_target_bound:
  "py_min xs = Some lo \<Longrightarrow> py_max xs = Some hi \<Longrightarrow> t = lo \<or> t = hi
   \<Longrightarrow> clamp_target xs (Float t) = Some (Float t)"
  using py_min_le_py_max [of xs lo hi]
  by (auto simp: clamp_target_def py_min2_def py_max2_def number_less_def)

lemma daily_target_100: "daily_target 100 = Float (100 * (2 powr (1 / 250) - 1))"
  by (simp add: daily_target_def)

lemma daily_target_100_pos: "(0::real) < 100 * (2 powr (1 / 250) - 1)"
  by simp

lemma daily_target_minus_100: "daily_target (- 100) = Float (- 100)"
  by (simp add: daily_target_def)

lemma daily_target_minus_200: "number_less (daily_target (- 200)) (Float 0)"
proof -
  have "cos (pi * (1 / 250)) < cos 0"
    by (rule cos_monotone_0_pi) (use pi_gt_zero in auto)
  then show ?thesis
    by (simp add: daily_target_def negative_power_def number_less_def)
qed

lemma meanvar_qp_return_row:
  assumes "meanvar_qp eig meanVec sigMat tau longShort maxAlloc lambda_l1 lambda_l2 assetsOrder
      = Some (d, S, p)"
  shows "\<exists>mv. ordered_means meanVec assetsOrder = Some mv
     \<and> (if longShort = 0 then qp_A p ! 0 = scal (- 1) mv \<and> qp_u p ! 0 = minus_bound tau
        else qp_A p ! 1 = scal (- 1) mv @ np_zeros (2 * d) \<and> qp_u p ! 1 = minus_bound tau)"
  using assms
  by (auto simp: meanvar_qp_def ordered_means_def Let_def bind_eq_Some_conv np_vstack_def
      split: if_splits prod.splits)

text \<open>
  Claim C7.  Let the converted per-period value of \<^verbatim>\<open>retTarget\<close> exceed \<open>max(meanVec)\<close>, or
  be below \<open>min(meanVec)\<close>, and let \<open>b\<close> be that maximum, or that minimum.  Then the
  clamping turns the converted target into \<open>b\<close>; \<^verbatim>\<open>meanVariancePortfolioReturnsTarget\<close>
  returns the same weights and variance as for a target \<^verbatim>\<open>retTarget'\<close> whose converted
  value is \<open>b\<close>, all other arguments equal; and in the problem handed to the solver the
  constraint on the expected return, the row \<open>-meanVec\<close> (in the order of the assets in
  which the problem is posed), has the upper bound \<open>-b\<close>: the expected return of the
  portfolio is at least \<open>b\<close>.  That row is the first one of the long-only problem and the
  second one of the long-short problem.  "Exceeds" and "below" are the comparisons that
  the program makes; on floats they are \<open>>\<close> and \<open><\<close>.
\<close>

theorem target_clamping:
  assumes "py_min meanVec = Some lo" and "py_max meanVec = Some hi"
    and "daily_target retTarget' = Float b"
    and "(number_less (Float hi) (daily_target retTarget) \<and> b = hi)
       \<or> (number_less (daily_target retTarget) (Float lo) \<and> b = lo)"
  shows "clamp_target meanVec (daily_target retTarget) = Some (Float b)
     \<and> meanVariancePortfolioReturnsTarget solve eig meanVec sigMat retTarget longShort maxAlloc
           lambda_l1 lambda_l2 assetsOrder
       = meanVariancePortfolioReturnsTarget solve eig meanVec sigMat retTarget' longShort maxAlloc
           lambda_l1 lambda_l2 assetsOrder
     \<and> (\<forall>d S p. meanvar_problem eig meanVec sigMat retTarget longShort maxAlloc lambda_l1 lambda_l2
             assetsOrder = Some (d, S, p) \<longrightarrow>
          (\<exists>mv. ordered_means meanVec assetsOrder = Some mv
            \<and> (if longShort = 0 then qp_A p ! 0 = scal (- 1) mv \<and> qp_u p ! 0 = Fin (- b)
               else qp_A p ! 1 = scal (- 1) mv @ np_zeros (2 * d) \<and> qp_u p ! 1 = Fin (- b))))"
proof -
  have c: "clamp_target meanVec (daily_target retTarget) = Some (Float b)"
    using assms(1,2,4) clamp_target_above [of meanVec lo hi "daily_target retTarget"]
      clamp_target_below [of meanVec lo hi "daily_target retTarget"]
    by auto
  have c': "clamp_target meanVec (Float b) = Some (Float b)"
    using assms(1,2,4) clamp_target_bound [of meanVec lo hi b] by auto
  have p: "meanvar_problem eig meanVec sigMat retTarget longShort maxAlloc lambda_l1 lambda_l2
        assetsOrder
      = meanvar_qp eig meanVec sigMat (Float b) longShort maxAlloc lambda_l1 lambda_l2 assetsOrder"
    by (simp add: meanvar_problem_def c)
  have p': "meanvar_problem eig meanVec sigMat retTarget' longShort maxAlloc lambda_l1 lambda_l2
        assetsOrder
      = meanvar_qp eig meanVec sigMat (Float b) longShort maxAlloc lambda_l1 lambda_l2 assetsOrder"
    by (simp add: meanvar_problem_def assms(3) c')
  have "meanVariancePortfolioReturnsTarget solve eig meanVec sigMat retTarget longShort maxAlloc
           lambda_l1 lambda_l2 assetsOrder
       = meanVariancePortfolioReturnsTarget solve eig meanVec sigMat retTarget' longShort maxAlloc
           lambda_l1 lambda_l2 assetsOrder"
    by (simp add: meanVariancePortfolioReturnsTarget_def p p')
  moreover have "\<exists>mv. ordered_means meanVec assetsOrder = Some mv
      \<and> (if longShort = 0 then qp_A q ! 0 = scal (- 1) mv \<and> qp_u q ! 0 = Fin (- b)
         else qp_A q ! 1 = scal (- 1) mv @ np_zeros (2 * d) \<and> qp_u q ! 1 = Fin (- b))"
    if "meanvar_problem eig meanVec sigMat retTarget longShort maxAlloc lambda_l1 lambda_l2
        assetsOrder = Some (d, S, q)" for d S q
    using meanvar_qp_return_row [of eig meanVec sigMat "Float b" longShort maxAlloc lambda_l1
        lambda_l2 assetsOrder d S q] that
    by (auto simp: p split: if_splits)
  ultimately show ?thesis
    using c by blast
qed

theorem target_clamping_witness:
  "clamp_target [- 200, - 100] (daily_target 0) = Some (Float (- 100))
   \<and> meanVariancePortfolioReturnsTarget (solver_returning [Some (1 / 4), Some (3 / 4)]) eig_diagonal
       [- 200, - 100] [[1, 0], [0, 1]] 0 0 1 0 0 []
     = meanVariancePortfolioReturnsTarget (solver_returning [Some (1 / 4), Some (3 / 4)]) eig_diagonal
       [- 200, - 100] [[1, 0], [0, 1]] (- 100) 0 1 0 0 []
   \<and> meanVariancePortfolioReturnsTarget (solver_returning [Some (1 / 4), Some (3 / 4)]) eig_diagonal
       [- 200, - 100] [[1, 0], [0, 1]] (- 100) 0 1 0 0 [] = Some ([1 / 4, 3 / 4], 5 / 8)
   \<and> (\<exists>d S p. meanvar_problem eig_diagonal [- 200, - 100] [[1, 0], [0, 1]] 0 0 1 0 0 []
          = Some (d, S, p)
        \<and> qp_A p ! 0 = [200, 100] \<and> qp_u p ! 0 = Fin 100)
   \<and> clamp_target [0, 1] (daily_target (- 200)) = Some (Float 0)
   \<and> meanVariancePortfolioReturnsTarget (solver_returning [Some (1 / 4), Some (3 / 4)]) eig_diagonal
       [0, 1] [[1, 0], [0, 1]] (- 200) (1 / 2) 1 0 0 []
     = meanVariancePortfolioReturnsTarget (solver_returning [Some (1 / 4), Some (3 / 4)]) eig_diagonal
       [0, 1] [[1, 0], [0, 1]] 0 (1 / 2) 1 0 0 []
   \<and> (\<exists>d S p. meanvar_problem eig_diagonal [0, 1] [[1, 0], [0, 1]] (- 200) (1 / 2) 1 0 0 []
          = Some (d, S, p)
        \<and> qp_A p ! 1 = [0, - 1, 0, 0, 0, 0] \<and> qp_u p ! 1 = Fin 0)"
proof -
  let ?solve = "solver_returning [Some (1 / 4), Some (3 / 4)]"
  let ?I = "[[1, 0], [0, 1 :: real]]"
  have lo: "py_min [- 200, - 100] = Some (- 200)" and hi: "py_max [- 200, - 100] = Some (- 100)"
    by (simp_all add: py_min_def py_max_def)
  have lo': "py_min [0, 1] = Some 0" and hi': "py_max [0, 1] = Some 1"
    by (simp_all add: py_min_def py_max_def)
  have above: "(number_less (Float (- 100)) (daily_target 0) \<and> (- 100 :: real) = - 100)
      \<or> (number_less (daily_target 0) (Float (- 200)) \<and> (- 100 :: real) = - 200)"
    by (simp add: daily_target_0 number_less_def)
  have below: "(number_less (Float 1) (daily_target (- 200)) \<and> (0::real) = 1)
      \<or> (number_less (daily_target (- 200)) (Float 0) \<and> (0::real) = 0)"
    using daily_target_minus_200 by simp
  note up = target_clamping [OF lo hi daily_target_minus_100 above, of ?solve eig_diagonal ?I
      0 1 0 0 "[]"]
  note down = target_clamping [OF lo' hi' daily_target_0 below, of ?solve eig_diagonal ?I
      "1 / 2" 1 0 0 "[]"]
  have q: "meanvar_qp eig_diagonal [- 200, - 100] ?I (Float (- 100)) 0 1 0 0 [] \<bind>
      solve_and_finish ?solve 0 [] = Some ([1 / 4, 3 / 4], 5 / 8)"
    by code_simp
  have c: "clamp_target [- 200, - 100] (Float (- 100)) = Some (Float (- 100))"
    by code_simp
  have v: "meanVariancePortfolioReturnsTarget ?solve eig_diagonal [- 200, - 100] ?I
      (- 100) 0 1 0 0 [] = Some ([1 / 4, 3 / 4], 5 / 8)"
    by (simp add: meanVariancePortfolioReturnsTarget_def meanvar_problem_def
        daily_target_minus_100 c q)
  have e: "meanvar_qp eig_diagonal [- 200, - 100] ?I (Float (- 100)) 0 1 0 0 [] \<noteq> None"
    by code_simp
  have e': "meanvar_qp eig_diagonal [0, 1] ?I (Float 0) (1 / 2) 1 0 0 [] \<noteq> None"
    by code_simp
  have m: "ordered_means [- 200, - 100] [] = Some [- 200, - 100]"
    "ordered_means [0, 1] [] = Some [0, 1]"
    by (simp_all add: ordered_means_def)
  have row: "\<exists>d S p. meanvar_problem eig_diagonal [- 200, - 100] ?I 0 0 1 0 0 [] = Some (d, S, p)
      \<and> qp_A p ! 0 = [200, 100] \<and> qp_u p ! 0 = Fin 100"
  proof -
    obtain d S p where p: "meanvar_problem eig_diagonal [- 200, - 100] ?I 0 0 1 0 0 []
        = Some (d, S, p)"
      using e up by (auto simp: meanvar_problem_def)
    from up p have "\<exists>mv. ordered_means [- 200, - 100] [] = Some mv
        \<and> qp_A p ! 0 = scal (- 1) mv \<and> qp_u p ! 0 = Fin (- (- 100))"
      by simp
    then have "qp_A p ! 0 = [200, 100] \<and> qp_u p ! 0 = Fin 100"
      by (simp add: m scal_def)
    then show ?thesis using p by blast
  qed
  have row': "\<exists>d S p. meanvar_problem eig_diagonal [0, 1] ?I (- 200) (1 / 2) 1 0 0 []
        = Some (d, S, p)
      \<and> qp_A p ! 1 = [0, - 1, 0, 0, 0, 0] \<and> qp_u p ! 1 = Fin 0"
  proof -
    obtain d S p where p: "meanvar_problem eig_diagonal [0, 1] ?I (- 200) (1 / 2) 1 0 0 []
        = Some (d, S, p)"
      using e' down by (auto simp: meanvar_problem_def)
    then have d: "d = 2"
      using meanvar_problem_d [OF p] by simp
    from down p have "\<exists>mv. ordered_means [0, 1] [] = Some mv
        \<and> qp_A p ! 1 = scal (- 1) mv @ np_zeros (2 * d) \<and> qp_u p ! 1 = Fin (- 0)"
      by simp
    then have "qp_A p ! 1 = [0, - 1, 0, 0, 0, 0] \<and> qp_u p ! 1 = Fin 0"
      by (simp add: m scal_def d np_zeros_def numeral_eq_Suc)
    then show ?thesis using p by blast
  qed
  show ?thesis
    using up down v row row' by simp
qed

section \<open>Properties of the backtest\<close>

lemma flat_log_returns:
  "log_returns \<lparr>frame_index = [''d0'', ''d1'', ''d2'', ''d3'', ''d4''], frame_columns = [''A'', ''B''],
      frame_values = [[Some 1, Some 1], [Some 1, Some 1], [Some 1, Some 1], [Some 1, Some 1],
                      [Some 1, Some 1]]\<rparr>
   = \<lparr>frame_index = [''d1'', ''d2'', ''d3'', ''d4''], frame_columns = [''A'', ''B''],
      frame_values = [[Num 0, Num 0], [Num 0, Num 0], [Num 0, Num 0], [Num 0, Num 0]]\<rparr>"
  by (simp add: log_returns_def log_return_def np_log_def cell_minus_def)

text \<open>
  A price of 0 gives an infinite log-return, which is not a missing value: the ticker
  stays in the window, and the window has no finite covariance.
\<close>

lemma log_return_zero_price:
  "log_return (Some 1) (Some 0) = MinusInf \<and> log_return (Some 0) (Some 1) = PlusInf
   \<and> log_return (Some 0) (Some 0) = NaN \<and> log_return (Some 1) None = NaN
   \<and> log_return (Some 1) (Some (- 1)) = NaN"
  by (simp add: log_return_def np_log_def cell_minus_def)

lemma window_with_zero_price:
  "window_stats \<lparr>frame_index = [''d1'', ''d2'', ''d3''], frame_columns = [''A'', ''B'', ''C''],
      frame_values = [[Num 0, MinusInf, Num 0], [Num 0, PlusInf, NaN], [Num 0, Num 0, Num 0]]\<rparr> 3 2 2
     = Some ([''A'', ''B''], None, None)"
  by code_simp

text \<open>
  Claim C1, at a failing input.  The backtest passes \<^verbatim>\<open>maxAlloc\<close> in the position of the
  optimizer's parameter \<^verbatim>\<open>longShort\<close> and \<^verbatim>\<open>longShort\<close> in the position of \<^verbatim>\<open>maxAlloc\<close>.
  With the backtest's defaults \<open>maxAlloc = 1\<close> and \<open>longShort = 0\<close> both optimizers
  build their problem for \<open>longShort = 1\<close> and \<open>maxAlloc = 0\<close>: on two assets the
  minimum-variance problem then has six variables with all box bounds 0, where the call
  with \<open>longShort = 0\<close> and \<open>maxAlloc = 1\<close> has two variables with box bounds 1.
\<close>

theorem call_optimizer_swaps_arguments:
  "call_optimizer solve eig ''minimumVariancePortfolio'' meanVec (Some sigMat) 1 retTarget 0
      lambda_l1 lambda_l2
     = map_option (Some \<circ> fst)
         (minvar_problem eig sigMat 1 0 lambda_l1 lambda_l2 [] \<bind> solve_and_finish solve 1 [])
   \<and> call_optimizer solve eig ''meanVariancePortfolioReturnsTarget'' (Some meanVec') (Some sigMat) 1
      retTarget 0 lambda_l1 lambda_l2
     = map_option (Some \<circ> fst)
         (meanvar_problem eig meanVec' sigMat retTarget 1 0 lambda_l1 lambda_l2 []
            \<bind> solve_and_finish solve 1 [])
   \<and> map_option (qp_u \<circ> snd \<circ> snd) (minvar_problem eig_diagonal [[1, 0], [0, 1]] 1 0 0 0 [])
     = Some [Fin 2, Fin 0, Fin 0, Fin 1, Fin 0, Fin 0, Fin 0, Fin 0, Fin 0, Fin 0]
   \<and> map_option (qp_u \<circ> snd \<circ> snd) (minvar_problem eig_diagonal [[1, 0], [0, 1]] 0 1 0 0 [])
     = Some [Fin 1, Fin 1, Fin 1]"
proof -
  have a: "map_option (qp_u \<circ> snd \<circ> snd) (minvar_problem eig_diagonal [[1, 0], [0, 1]] 1 0 0 0 [])
     = Some [Fin 2, Fin 0, Fin 0, Fin 1, Fin 0, Fin 0, Fin 0, Fin 0, Fin 0, Fin 0]"
    by code_simp
  have b: "map_option (qp_u \<circ> snd \<circ> snd) (minvar_problem eig_diagonal [[1, 0], [0, 1]] 0 1 0 0 [])
     = Some [Fin 1, Fin 1, Fin 1]"
    by code_simp
  have c: "call_optimizer solve eig ''minimumVariancePortfolio'' meanVec (Some sigMat) 1 retTarget 0
      lambda_l1 lambda_l2
     = map_option (Some \<circ> fst)
         (minvar_problem eig sigMat 1 0 lambda_l1 lambda_l2 [] \<bind> solve_and_finish solve 1 [])"
    by (auto simp: call_optimizer_def minimumVariancePortfolio_def split: bind_splits)
  have d: "call_optimizer solve eig ''meanVariancePortfolioReturnsTarget'' (Some meanVec') (Some sigMat) 1
      retTarget 0 lambda_l1 lambda_l2
     = map_option (Some \<circ> fst)
         (meanvar_problem eig meanVec' sigMat retTarget 1 0 lambda_l1 lambda_l2 []
            \<bind> solve_and_finish solve 1 [])"
    by (auto simp: call_optimizer_def meanVariancePortfolioReturnsTarget_def split: bind_splits)
  show ?thesis using a b c d by blast
qed

text \<open>
  Claim C3, at a failing input.  Two tickers with the constant price 1 on five dates
  have the log-return 0 on all four rows.  At the rebalance index 2 with
  \<open>window_size = 2\<close> the statistics handed to the optimizer are the mean \<open>[1/300, 1/300]\<close>
  and the covariance with all entries \<open>1/3\<close>: the row of flags that \<^verbatim>\<open>check_missing\<close>
  appends is a third observation \<open>[1, 1]\<close>, and the mean is divided by 100 once more.
  Over the two trailing rows of log-returns the mean is \<open>[0, 0]\<close> and the covariance is
  zero.  On the table \<open>two_ticker_logret\<close> with \<open>window_size = 3\<close> at the rebalance index 3 the
  cut at \<open>n - 1 = 3\<close> rows removes the row of flags, and the mean handed to the optimizer
  is \<open>[1/400, 0]\<close>, the mean \<open>[25, 0]\<close> of the three trailing log-returns divided by 10000.
\<close>

theorem window_stats_flag_row:
  "window_stats
     (log_returns \<lparr>frame_index = [''d0'', ''d1'', ''d2'', ''d3'', ''d4''], frame_columns = [''A'', ''B''],
        frame_values = [[Some 1, Some 1], [Some 1, Some 1], [Some 1, Some 1], [Some 1, Some 1],
                        [Some 1, Some 1]]\<rparr>) 4 2 2
     = Some ([''A'', ''B''], Some [1 / 300, 1 / 300], Some [[1 / 3, 1 / 3], [1 / 3, 1 / 3]])
   \<and> np_mean0 (trailing_window
        (log_returns \<lparr>frame_index = [''d0'', ''d1'', ''d2'', ''d3'', ''d4''], frame_columns = [''A'', ''B''],
        frame_values = [[Some 1, Some 1], [Some 1, Some 1], [Some 1, Some 1], [Some 1, Some 1],
                        [Some 1, Some 1]]\<rparr>) 2 2) = Some [0, 0]
   \<and> np_cov (trailing_window
        (log_returns \<lparr>frame_index = [''d0'', ''d1'', ''d2'', ''d3'', ''d4''], frame_columns = [''A'', ''B''],
        frame_values = [[Some 1, Some 1], [Some 1, Some 1], [Some 1, Some 1], [Some 1, Some 1],
                        [Some 1, Some 1]]\<rparr>) 2 2) = Some [[0, 0], [0, 0]]
   \<and> window_stats two_ticker_logret 4 3 3
     = Some ([''A'', ''B''], Some [1 / 400, 0], Some [[0, 0], [0, 0]])
   \<and> np_mean0 (trailing_window two_ticker_logret 3 3) = Some [25, 0]"
proof -
  have a: "window_stats \<lparr>frame_index = [''d1'', ''d2'', ''d3'', ''d4''], frame_columns = [''A'', ''B''],
      frame_values = [[Num 0, Num 0], [Num 0, Num 0], [Num 0, Num 0], [Num 0, Num 0]]\<rparr> 4 2 2
     = Some ([''A'', ''B''], Some [1 / 300, 1 / 300], Some [[1 / 3, 1 / 3], [1 / 3, 1 / 3]])"
    by code_simp
  have b: "np_mean0 (trailing_window \<lparr>frame_index = [''d1'', ''d2'', ''d3'', ''d4''], frame_columns = [''A'', ''B''],
      frame_values = [[Num 0, Num 0], [Num 0, Num 0], [Num 0, Num 0], [Num 0, Num 0]]\<rparr> 2 2)
      = Some [0, 0]"
    by code_simp
  have c: "np_cov (trailing_window \<lparr>frame_index = [''d1'', ''d2'', ''d3'', ''d4''], frame_columns = [''A'', ''B''],
      frame_values = [[Num 0, Num 0], [Num 0, Num 0], [Num 0, Num 0], [Num 0, Num 0]]\<rparr> 2 2)
      = Some [[0, 0], [0, 0]]"
    by code_simp
  have d: "window_stats two_ticker_logret 4 3 3
     = Some ([''A'', ''B''], Some [1 / 400, 0], Some [[0, 0], [0, 0]])"
    by code_simp
  have e: "np_mean0 (trailing_window two_ticker_logret 3 3) = Some [25, 0]"
    by code_simp
  show ?thesis
    by (simp only: flat_log_returns a b c d e)
qed

subsection \<open>Lengths of the results\<close>

lemma fold_bind_None: "fold (\<lambda>i st. st \<bind> f i) xs None = None"
  by (induction xs) simp_all

lemma fold_bind_invariant:
  assumes "fold (\<lambda>i st. st \<bind> f i) xs (Some s0) = Some s"
    and "P 0 s0"
    and "\<And>j a b. j < length xs \<Longrightarrow> P j a \<Longrightarrow> f (xs ! j) a = Some b \<Longrightarrow> P (Suc j) b"
  shows "P (length xs) s"
  using assms
proof (induction xs arbitrary: s rule: rev_induct)
  case Nil
  then show ?case by simp
next
  case (snoc x xs)
  from snoc.prems(1) obtain a where
    a: "fold (\<lambda>i st. st \<bind> f i) xs (Some s0) = Some a" and b: "f x a = Some s"
    by (cases "fold (\<lambda>i st. st \<bind> f i) xs (Some s0)") auto
  have "P (length xs) a"
  proof (rule snoc.IH [OF a snoc.prems(2)])
    fix j a' b' assume "j < length xs" "P j a'" "f (xs ! j) a' = Some b'"
    then show "P (Suc j) b'"
      using snoc.prems(3) [of j a' b'] by (simp add: nth_append)
  qed
  then show ?case
    using snoc.prems(3) [of "length xs" a s] b by simp
qed

lemma length_realized: "realized w rows = Some r \<Longrightarrow> length r = length rows"
  by (auto simp: realized_def Let_def split: if_splits)

lemma backtest_step_shape:
  assumes "backtest_step solve eig name df1 df_logret ws d maxAlloc retTarget longShort l1 l2 i
      (R, W) = Some (R', W')"
  shows "\<exists>w_opt r. W' = stack_weights W w_opt \<and>
     (if i + d < int (length (frame_values df_logret))
      then length r = length (py_slice (frame_values df_logret) i (i + d))
         \<and> R' = Some ((case R of None \<Rightarrow> [] | Some l \<Rightarrow> l) @ map Some r)
      else length r = length (py_slice_from (frame_values df_logret) i)
         \<and> R' = Some ((case R of None \<Rightarrow> [None] | Some l \<Rightarrow> l) @ map Some r))"
  using assms
  by (auto simp: backtest_step_def Let_def bind_eq_Some_conv dest!: length_realized
      split: if_splits option.splits prod.splits)


lemma length_py_slice:
  "0 \<le> a \<Longrightarrow> a \<le> b \<Longrightarrow> b \<le> int (length xs) \<Longrightarrow> length (py_slice xs a b) = nat (b - a)"
  by (simp add: py_slice_def slice_bound_def Let_def)

lemma length_py_slice_from:
  "0 \<le> a \<Longrightarrow> a \<le> int (length xs) \<Longrightarrow> length (py_slice_from xs a) = nat (int (length xs) - a)"
  by (simp add: py_slice_from_def slice_bound_def Let_def min_def nat_diff_distrib)

lemma weights_after_stack: "weights_after j W \<Longrightarrow> weights_after (Suc j) (stack_weights W w)"
  by (auto simp: weights_after_def stack_weights_def split: weights.splits)

lemma py_range_up:
  "0 < step \<Longrightarrow>
   py_range start stop step
     = Some (map (\<lambda>j. start + int j * step) [0..<nat ((stop - start + step - 1) div step)])"
  by (simp add: py_range_def)

lemma rebalance_count:
  fixes n ws rt :: int
  assumes "1 \<le> rt"
  defines "K \<equiv> nat ((n - ws + rt - 1) div rt)"
  shows "j < K \<Longrightarrow> ws + int j * rt < n"
    and "ws < n \<Longrightarrow> n - ws \<le> int K * rt"
    and "ws + rt < n \<Longrightarrow> 2 \<le> K"
    and "ws < n \<Longrightarrow> K = nat \<lceil>real_of_int (n - ws) / real_of_int rt\<rceil>"
proof -
  let ?x = "n - ws + rt - 1"
  let ?q = "?x div rt"
  have rt: "0 < rt" using assms by simp
  have le: "?q * rt \<le> ?x"
    using rt by (metis div_mult_mod_eq le_add_same_cancel1 pos_mod_sign)
  have gt: "?x < ?q * rt + rt"
    using rt by (metis div_mult_mod_eq add_le_cancel_left pos_mod_bound not_less)
  show "ws + int j * rt < n" if "j < K"
  proof -
    have "int j + 1 \<le> ?q" using that by (simp add: K_def)
    then have "(int j + 1) * rt \<le> ?q * rt" using rt by (simp add: mult_right_mono)
    then show ?thesis using le by (simp add: algebra_simps)
  qed
  show K: "n - ws \<le> int K * rt" if "ws < n"
  proof -
    have "0 \<le> ?q" using that rt by (simp add: pos_imp_zdiv_nonneg_iff)
    then have "int K = ?q" by (simp add: K_def)
    then show ?thesis using gt by simp
  qed
  show "2 \<le> K" if "ws + rt < n"
  proof -
    have "2 * rt \<le> ?x" using that by simp
    then have "2 * rt div rt \<le> ?q" by (rule zdiv_mono1) (rule rt)
    then have "2 \<le> ?q" using rt by simp
    then show ?thesis by (simp add: K_def)
  qed
  show "K = nat \<lceil>real_of_int (n - ws) / real_of_int rt\<rceil>" if "ws < n"
  proof -
    have "\<lceil>real_of_int (n - ws) / real_of_int rt\<rceil> = ?q"
    proof (rule ceiling_unique)
      have "real_of_int (?q * rt) - real_of_int rt < real_of_int (n - ws)"
        using le by linarith
      then show "of_int ?q - 1 < real_of_int (n - ws) / real_of_int rt"
        using rt by (simp add: field_simps)
      have "real_of_int (n - ws) \<le> real_of_int (?q * rt)"
        using gt by linarith
      then show "real_of_int (n - ws) / real_of_int rt \<le> of_int ?q"
        using rt by (simp add: field_simps)
    qed
    then show ?thesis by (simp add: K_def)
  qed
qed


lemma length_log_returns:
  "length (frame_values (log_returns df1)) = length (frame_values df1) - 1"
  by (simp add: log_returns_def)

lemma backtest_step_invariant:
  fixes n ws rt :: int
  assumes step: "backtest_step solve eig name df1 df_logret ws rt maxAlloc retTarget longShort l1 l2
      (ws + int j * rt) (R, W) = Some (R', W')"
    and n: "n = int (length (frame_values df_logret))"
    and ws: "0 \<le> ws" and rt: "1 \<le> rt" and first: "ws + rt < n"
    and i: "ws + int j * rt < n"
    and inv: "weights_after j W" "int (returns_length R) = min (int j * rt) (n - ws)"
      "0 < j \<longrightarrow> R \<noteq> None"
  shows "weights_after (Suc j) W' \<and> int (returns_length R') = min (int (Suc j) * rt) (n - ws)
     \<and> R' \<noteq> None"
proof -
  let ?i = "ws + int j * rt"
  let ?logret = "frame_values df_logret"
  have i0: "0 \<le> ?i" using ws rt by simp
  have suc: "int (Suc j) * rt = int j * rt + rt" by (simp add: algebra_simps)
  from backtest_step_shape [OF step] obtain w_opt r where
    W': "W' = stack_weights W w_opt"
    and R': "if ?i + rt < int (length ?logret)
      then length r = length (py_slice ?logret ?i (?i + rt))
         \<and> R' = Some ((case R of None \<Rightarrow> [] | Some l \<Rightarrow> l) @ map Some r)
      else length r = length (py_slice_from ?logret ?i)
         \<and> R' = Some ((case R of None \<Rightarrow> [None] | Some l \<Rightarrow> l) @ map Some r)"
    by blast
  have w: "weights_after (Suc j) W'"
    using inv(1) W' by (simp add: weights_after_stack)
  show ?thesis
  proof (cases "?i + rt < n")
    case True
    then have "length r = nat rt"
      and "R' = Some ((case R of None \<Rightarrow> [] | Some l \<Rightarrow> l) @ map Some r)"
      using R' n i0 rt length_py_slice [of ?i "?i + rt" ?logret] by simp_all
    then have "int (returns_length R') = int (returns_length R) + rt" and "R' \<noteq> None"
      using rt by (auto simp: returns_length_def split: option.splits)
    then show ?thesis
      using w inv(2) True suc rt by (auto simp: min_def)
  next
    case False
    have "R \<noteq> None"
    proof
      assume "R = None"
      then have "j = 0" using inv(3) by auto
      then show False using False first by simp
    qed
    then obtain l where l: "R = Some l" by auto
    have "length r = nat (n - ?i)" and "R' = Some (l @ map Some r)"
      using R' False n i i0 l length_py_slice_from [of ?i ?logret] by simp_all
    then have "int (returns_length R') = int (returns_length R) + (n - ?i)" and "R' \<noteq> None"
      using i l by (auto simp: returns_length_def)
    then show ?thesis
      using w inv(2) False i suc rt by (auto simp: min_def)
  qed
qed

lemma lengths_for_nonnegative_window:
  fixes n window_size rebalance_time :: int
  assumes run: "rollingwindow_backtest solve eig optimizerName df1 window_size rebalance_time
      maxAlloc retTarget longShort lambda_l1 lambda_l2 = Some (R, df_logret, w_all, rownames)"
    and frame: "length (frame_index df1) = length (frame_values df1)"
    and n: "n = int (length (frame_values (log_returns df1)))"
    and ws: "0 \<le> window_size" and rt: "1 \<le> rebalance_time"
    and first: "window_size + rebalance_time < n"
  shows "\<exists>returns rows. R = Some returns \<and> length returns = nat (n - window_size)
     \<and> length rownames = nat (n - window_size)
     \<and> w_all = Rows rows
     \<and> length rows = nat \<lceil>real_of_int (n - window_size) / real_of_int rebalance_time\<rceil>"
proof -
  let ?K = "nat ((n - window_size + rebalance_time - 1) div rebalance_time)"
  let ?xs = "map (\<lambda>j. window_size + int j * rebalance_time) [0..<?K]"
  let ?f = "backtest_step solve eig optimizerName df1 (log_returns df1) window_size
      rebalance_time maxAlloc retTarget longShort lambda_l1 lambda_l2"
  let ?P = "\<lambda>j (R, W). weights_after j W
      \<and> int (returns_length R) = min (int j * rebalance_time) (n - window_size)
      \<and> (0 < j \<longrightarrow> R \<noteq> None)"
  have less: "window_size < n" using first rt by simp
  have range: "py_range window_size n rebalance_time = Some ?xs"
    using rt by (simp add: py_range_up)
  have fold: "fold (\<lambda>i st. st \<bind> ?f i) ?xs (Some (None, NoWeights)) = Some (R, w_all)"
    and names: "rownames = py_slice_from (frame_index df1) (window_size + 1)"
    using run range
    by (auto simp: rollingwindow_backtest_def Let_def n [symmetric] bind_eq_Some_conv
        split: prod.splits)
  have "?P (length ?xs) (R, w_all)"
  proof (rule fold_bind_invariant [OF fold])
    show "?P 0 (None, NoWeights)"
      using less by (simp add: weights_after_def returns_length_def)
  next
    fix j a b
    assume j: "j < length ?xs" and a: "?P j a" and b: "?f (?xs ! j) a = Some b"
    obtain R0 W0 R1 W1 where ab: "a = (R0, W0)" "b = (R1, W1)"
      by (cases a, cases b) auto
    have jK: "j < ?K" using j by simp
    have i: "window_size + int j * rebalance_time < n"
      using rebalance_count(1) [OF rt jK] .
    have step: "?f (window_size + int j * rebalance_time) (R0, W0) = Some (R1, W1)"
      using b jK ab by simp
    show "?P (Suc j) b"
      using backtest_step_invariant [OF step n ws rt first i] a ab by simp
  qed
  then have W: "weights_after ?K w_all"
    and len: "int (returns_length R) = min (int ?K * rebalance_time) (n - window_size)"
    and some: "0 < ?K \<longrightarrow> R \<noteq> None"
    by simp_all
  have K2: "2 \<le> ?K" using rebalance_count(3) [OF rt first] .
  have Kn: "n - window_size \<le> int ?K * rebalance_time"
    using rebalance_count(2) [OF rt less] .
  have Kc: "?K = nat \<lceil>real_of_int (n - window_size) / real_of_int rebalance_time\<rceil>"
    using rebalance_count(4) [OF rt less] .
  obtain returns where R: "R = Some returns" using some K2 by auto
  have "min (int ?K * rebalance_time) (n - window_size) = n - window_size"
    by (rule min_absorb2) (rule Kn)
  then have "int (returns_length R) = n - window_size"
    using len by (simp only:)
  then have l1: "length returns = nat (n - window_size)"
    using R by (simp add: returns_length_def)
  obtain rows where rows: "w_all = Rows rows" "length rows = ?K"
    using W K2 by (auto simp: weights_after_def split: weights.splits)
  have "int (length (frame_index df1)) = n + 1"
    using frame n less ws by (simp add: length_log_returns)
  then have l2: "length rownames = nat (n - window_size)"
    using names ws less length_py_slice_from [of "window_size + 1" "frame_index df1"] by simp
  show ?thesis
    using R l1 l2 rows Kc by simp
qed

lemma fold_bind_step:
  assumes "fold (\<lambda>i st. st \<bind> f i) xs (Some s0) = Some s" and "j < length xs"
  shows "\<exists>a b. f (xs ! j) a = Some b"
proof -
  let ?F = "\<lambda>ys. fold (\<lambda>i st. st \<bind> f i) ys"
  have xs: "xs = take j xs @ xs ! j # drop (Suc j) xs"
    using assms(2) by (simp add: id_take_nth_drop)
  have "?F xs (Some s0) = ?F (drop (Suc j) xs) (?F (take j xs) (Some s0) \<bind> f (xs ! j))"
    by (subst xs) simp
  then have "?F (drop (Suc j) xs) (?F (take j xs) (Some s0) \<bind> f (xs ! j)) = Some s"
    using assms(1) by simp
  then have "?F (take j xs) (Some s0) \<bind> f (xs ! j) \<noteq> None"
    using fold_bind_None [of f "drop (Suc j) xs"] by (metis option.distinct(1))
  then show ?thesis
    by (cases "?F (take j xs) (Some s0)") auto
qed

lemma check_missing_empty:
  assumes "frame_values df = []"
  shows "frame_columns (check_missing df) = frame_columns df"
    and "length (frame_values (check_missing df)) = 1"
  using assms by (simp_all add: check_missing_def Let_def column_def map_nth)

lemma scatter_unassigned:
  "c \<in> set cs \<Longrightarrow> c \<in> set sample_stocks \<Longrightarrow> scatter cs sample_stocks None k = None"
  by (induction cs) auto

lemma np_cov_short: "length X < 2 \<Longrightarrow> np_cov X = None"
  by (simp add: np_cov_def)

lemma backtest_step_needs_window:
  assumes "backtest_step solve eig name df1 df_logret ws d maxAlloc retTarget longShort l1 l2 i
      (R, W) = Some s"
    and "frame_columns df1 \<noteq> []" and "frame_columns df_logret = frame_columns df1"
  shows "py_slice (frame_values df_logret) (i - ws) i \<noteq> []"
proof
  assume empty: "py_slice (frame_values df_logret) (i - ws) i = []"
  let ?w = "check_missing (frame_div (frame_rows df_logret (i - ws) i) 100)"
  have v: "frame_values (frame_div (frame_rows df_logret (i - ws) i) 100) = []"
    and c: "frame_columns (frame_div (frame_rows df_logret (i - ws) i) 100) = frame_columns df1"
    using empty assms(3) by (simp_all add: frame_div_def frame_rows_def)
  have cols: "frame_columns ?w = frame_columns df1" and len: "length (frame_values ?w) = 1"
    using check_missing_empty [OF v] c by simp_all
  have short: "length X < 2"
    if "np_array (py_slice_to (frame_values ?w) k) = Some X" for k X
    using that len by (auto simp: np_array_def py_slice_to_def split: if_splits)
  have sc: "scatter (frame_columns df1) (frame_columns df1) None 0 = None"
    using assms(2) scatter_unassigned [of "hd (frame_columns df1)" "frame_columns df1"]
    by simp
  show False
    using assms(1) cols sc
    by (auto simp: backtest_step_def window_stats_def call_optimizer_def Let_def bind_eq_Some_conv
        dest!: short np_cov_short split: if_splits prod.splits)
qed


lemma py_slice_nonempty:
  "py_slice xs a b \<noteq> [] \<Longrightarrow> slice_bound xs a < slice_bound xs b"
  by (cases "slice_bound xs a < slice_bound xs b") (simp_all add: py_slice_def)

lemma negative_window_fails:
  fixes n window_size rebalance_time :: int
  assumes run: "rollingwindow_backtest solve eig optimizerName df1 window_size rebalance_time
      maxAlloc retTarget longShort lambda_l1 lambda_l2 = Some (R, df_logret, w_all, rownames)"
    and cols: "frame_columns df1 \<noteq> []"
    and n: "n = int (length (frame_values (log_returns df1)))"
    and rt: "1 \<le> rebalance_time" and first: "window_size + rebalance_time < n"
  shows "0 \<le> window_size"
proof (rule ccontr)
  assume "\<not> 0 \<le> window_size"
  then have neg: "window_size < 0" by simp
  let ?K = "nat ((n - window_size + rebalance_time - 1) div rebalance_time)"
  let ?xs = "map (\<lambda>j. window_size + int j * rebalance_time) [0..<?K]"
  let ?f = "backtest_step solve eig optimizerName df1 (log_returns df1) window_size
      rebalance_time maxAlloc retTarget longShort lambda_l1 lambda_l2"
  let ?vals = "frame_values (log_returns df1)"
  have less: "window_size < n" using first rt by simp
  have range: "py_range window_size n rebalance_time = Some ?xs"
    using rt by (simp add: py_range_up)
  have fold: "fold (\<lambda>i st. st \<bind> ?f i) ?xs (Some (None, NoWeights)) = Some (R, w_all)"
    using run range
    by (auto simp: rollingwindow_backtest_def Let_def n [symmetric] bind_eq_Some_conv
        split: prod.splits)
  have window: "slice_bound ?vals (int j * rebalance_time)
      < slice_bound ?vals (window_size + int j * rebalance_time)" if "j < ?K" for j
  proof -
    have "j < length ?xs" using that by simp
    from fold_bind_step [OF fold this] obtain a b where "?f (?xs ! j) a = Some b"
      by blast
    then have "?f (window_size + int j * rebalance_time) (fst a, snd a) = Some b"
      using that by simp
    then have "py_slice ?vals (window_size + int j * rebalance_time - window_size)
        (window_size + int j * rebalance_time) \<noteq> []"
      using cols by (rule backtest_step_needs_window) (simp add: log_returns_def)
    then show ?thesis
      using py_slice_nonempty by fastforce
  qed
  have negative: "window_size + int j * rebalance_time < 0" if "j < ?K" for j
  proof (rule ccontr)
    assume "\<not> window_size + int j * rebalance_time < 0"
    then have "0 \<le> window_size + int j * rebalance_time"
      and "window_size + int j * rebalance_time \<le> int j * rebalance_time"
      using neg by simp_all
    then have "slice_bound ?vals (window_size + int j * rebalance_time)
        \<le> slice_bound ?vals (int j * rebalance_time)"
      by (simp add: slice_bound_def Let_def)
    then show False using window [OF that] by simp
  qed
  have K2: "2 \<le> ?K" using rebalance_count(3) [OF rt first] .
  have Kn: "n - window_size \<le> int ?K * rebalance_time"
    using rebalance_count(2) [OF rt less] .
  have "slice_bound ?vals 0 < slice_bound ?vals window_size"
    using window [of 0] K2 by simp
  then have a: "0 < n + window_size"
    using neg by (simp add: slice_bound_def Let_def n)
  have b: "window_size + rebalance_time < 0"
    using negative [of 1] K2 by simp
  have "window_size + int (?K - 1) * rebalance_time < 0"
    using negative [of "?K - 1"] K2 by simp
  moreover have "int (?K - 1) * rebalance_time = int ?K * rebalance_time - rebalance_time"
    using K2 by (simp add: of_nat_diff algebra_simps)
  ultimately have c: "window_size + int ?K * rebalance_time - rebalance_time < 0"
    by simp
  show False using a b c Kn by linarith
qed

lemma two_ticker_log_returns: "log_returns two_ticker_prices = two_ticker_logret"
  by (simp add: log_returns_def log_return_def np_log_def cell_minus_def two_ticker_prices_def
      two_ticker_logret_def)

lemma realized_total: "\<forall>r \<in> set rows. length r = length w \<Longrightarrow> \<exists>x. realized w rows = Some x"
  by (simp add: realized_def)

lemma two_ticker_window:
  "window_stats two_ticker_logret 4 1 1
     = Some ([''A'', ''B''], Some [1 / 160, 1 / 200], Some [[9 / 32, 3 / 8], [3 / 8, 1 / 2]])"
  "window_stats two_ticker_logret 4 1 3
     = Some ([''A'', ''B''], Some [1 / 160, 1 / 200], Some [[9 / 32, 3 / 8], [3 / 8, 1 / 2]])"
  by code_simp+

lemma two_ticker_weights:
  "call_optimizer (solver_returning [None, None, None, None, None, None]) eig_of_window
     ''minimumVariancePortfolio'' (Some [1 / 160, 1 / 200]) (Some [[9 / 32, 3 / 8], [3 / 8, 1 / 2]])
     1 0 0 0 0 = Some (Some [1 / 2, 1 / 2])"
  by code_simp

lemma two_ticker_scatter:
  "scatter [''A'', ''B''] [''A'', ''B''] (Some [1 / 2, 1 / 2]) 0 = Some [1 / 2, 1 / 2]"
  by simp

lemma two_ticker_step:
  assumes "i = 1 \<or> i = 3"
  shows "\<exists>R'. backtest_step (solver_returning [None, None, None, None, None, None]) eig_of_window
     ''minimumVariancePortfolio'' two_ticker_prices two_ticker_logret 1 2 1 0 0 0 0 i (R, W)
     = Some (R', stack_weights W [1 / 2, 1 / 2])"
proof -
  have n: "int (length (frame_values two_ticker_logret)) = 4"
    and cols: "frame_columns two_ticker_prices = [''A'', ''B'']"
    by (simp_all add: two_ticker_logret_def two_ticker_prices_def)
  have ws: "window_stats two_ticker_logret 4 1 i
     = Some ([''A'', ''B''], Some [1 / 160, 1 / 200], Some [[9 / 32, 3 / 8], [3 / 8, 1 / 2]])"
    using assms two_ticker_window by auto
  have rows: "\<forall>r \<in> set (py_slice (frame_values two_ticker_logret) a b). length r = 2"
    "\<forall>r \<in> set (py_slice_from (frame_values two_ticker_logret) a). length r = 2" for a b
    by (auto simp: two_ticker_logret_def py_slice_def py_slice_from_def
        dest!: in_set_takeD in_set_dropD)
  obtain x y where
    "realized [1 / 2, 1 / 2] (py_slice (frame_values two_ticker_logret) i (i + 2)) = Some x"
    "realized [1 / 2, 1 / 2] (py_slice_from (frame_values two_ticker_logret) i) = Some y"
    using realized_total [of _ "[1 / 2, 1 / 2]"] rows
    by (metis length_Cons list.size(3) numeral_2_eq_2)
  then show ?thesis
    by (simp add: backtest_step_def Let_def n cols ws two_ticker_weights two_ticker_scatter)
qed

text \<open>
  Claim C10.  Let \<open>n\<close> be the number of log-return rows.  When the backtest completes
  with \<open>window_size + rebalance_time < n\<close> and \<open>rebalance_time \<ge> 1\<close>, on a price table with at
  least one ticker (or with a window size that is not negative), the realized-return
  series and the date vector both have length \<open>n - window_size\<close>, and the weight history is
  a matrix with \<open>\<lceil>(n - window_size) / rebalance_time\<rceil>\<close> rows.
\<close>

theorem backtest_lengths:
  fixes n window_size rebalance_time :: int
  assumes "rollingwindow_backtest solve eig optimizerName df1 window_size rebalance_time
      maxAlloc retTarget longShort lambda_l1 lambda_l2 = Some (R, df_logret, w_all, rownames)"
    and "length (frame_index df1) = length (frame_values df1)"
    and "0 \<le> window_size \<or> frame_columns df1 \<noteq> []"
    and "n = int (length (frame_values (log_returns df1)))"
    and "1 \<le> rebalance_time"
    and "window_size + rebalance_time < n"
  shows "\<exists>returns rows. R = Some returns \<and> length returns = nat (n - window_size)
     \<and> length rownames = nat (n - window_size)
     \<and> w_all = Rows rows
     \<and> length rows = nat \<lceil>real_of_int (n - window_size) / real_of_int rebalance_time\<rceil>"
proof -
  have "0 \<le> window_size"
    using assms(3) negative_window_fails [OF assms(1) _ assms(4-6)] by blast
  then show ?thesis
    using lengths_for_nonnegative_window [OF assms(1,2,4) _ assms(5,6)] by blast
qed

theorem backtest_lengths_witness:
  "\<exists>R. rollingwindow_backtest (solver_returning [None, None, None, None, None, None]) eig_of_window
       ''minimumVariancePortfolio'' two_ticker_prices 1 2 1 0 0 0 0
       = Some (R, two_ticker_logret, Rows [[1 / 2, 1 / 2], [1 / 2, 1 / 2]],
               [''2020-01-06'', ''2020-01-07'', ''2020-01-08''])
     \<and> (\<exists>returns. R = Some returns \<and> length returns = 3)"
proof -
  let ?step = "backtest_step (solver_returning [None, None, None, None, None, None]) eig_of_window
     ''minimumVariancePortfolio'' two_ticker_prices two_ticker_logret 1 2 1 0 0 0 0"
  have n': "int (length (frame_values two_ticker_logret)) = 4"
    by (simp add: two_ticker_logret_def)
  then have n: "(4::int) = int (length (frame_values (log_returns two_ticker_prices)))"
    by (simp add: two_ticker_log_returns)
  have range: "py_range 1 4 2 = Some [1, 3]"
    by code_simp
  obtain R1 where s1: "?step 1 (None, NoWeights) = Some (R1, OneVector [1 / 2, 1 / 2])"
    using two_ticker_step [of 1 None NoWeights] by (auto simp: stack_weights_def)
  obtain R where s2: "?step 3 (R1, OneVector [1 / 2, 1 / 2])
      = Some (R, Rows [[1 / 2, 1 / 2], [1 / 2, 1 / 2]])"
    using two_ticker_step [of 3 R1 "OneVector [1 / 2, 1 / 2]"] by (auto simp: stack_weights_def)
  have names: "py_slice_from (frame_index two_ticker_prices) 2
      = [''2020-01-06'', ''2020-01-07'', ''2020-01-08'']"
    by (simp add: two_ticker_prices_def py_slice_from_def slice_bound_def)
  have run: "rollingwindow_backtest (solver_returning [None, None, None, None, None, None])
       eig_of_window ''minimumVariancePortfolio'' two_ticker_prices 1 2 1 0 0 0 0
       = Some (R, two_ticker_logret, Rows [[1 / 2, 1 / 2], [1 / 2, 1 / 2]],
               [''2020-01-06'', ''2020-01-07'', ''2020-01-08''])"
    using s1 s2
    by (simp add: rollingwindow_backtest_def Let_def two_ticker_log_returns n' range names)
  have frame: "length (frame_index two_ticker_prices) = length (frame_values two_ticker_prices)"
    by (simp add: two_ticker_prices_def)
  have ws: "(0::int) \<le> 1 \<or> frame_columns two_ticker_prices \<noteq> []"
    by simp
  show ?thesis
    using backtest_lengths [OF run frame ws n] run by auto
qed

section \<open>Properties of the conditioning\<close>

lemma dims_rectangular: "dims r c A \<Longrightarrow> 0 < r \<Longrightarrow> rectangular A \<and> ncols A = c \<and> length A = r"
  using ncols_dims [of r c A] by (auto simp: rectangular_def dims_def)

lemma np_transpose_symmetric:
  assumes "dims d d A" "0 < d" "\<forall>i<d. \<forall>j<d. A ! i ! j = A ! j ! i"
  shows "np_transpose A = A"
proof (rule nth_equalityI)
  have nc: "ncols A = d" and len: "length A = d" using assms dims_rectangular by blast+
  show l: "length (np_transpose A) = length A" by (simp add: np_transpose_def nc len)
  fix i assume "i < length (np_transpose A)"
  then have i: "i < d" using l len by simp
  have rows: "length (A ! k) = d" if "k < d" for k
    using assms(1) that by (auto simp: dims_def)
  show "np_transpose A ! i = A ! i"
    using i assms(3) rows len
    by (auto simp: np_transpose_def nc column_def intro!: nth_equalityI)
qed

lemma np_add_self:
  assumes "dims d d A" "0 < d"
  shows "np_add A A = Some (mscal 2 A)"
proof -
  have nc: "ncols A = d" and len: "length A = d" and rect: "rectangular A"
    using assms dims_rectangular by blast+
  have rows: "length (A ! k) = d" if "k < d" for k
    using assms(1) that by (auto simp: dims_def)
  have "map (\<lambda>i. map (\<lambda>j. A ! (if d = 1 then 0 else i) ! (if d = 1 then 0 else j)
                          + A ! (if d = 1 then 0 else i) ! (if d = 1 then 0 else j)) [0..<d]) [0..<d]
      = mscal 2 A"
    using len rows by (auto simp: mscal_def scal_def intro!: nth_equalityI)
  then show ?thesis
    using rect by (simp add: np_add_def nc len Let_def)
qed

lemma mscal_half_double: "mscal (1 / 2) (mscal 2 A) = A"
  by (simp add: mscal_def scal_def map_idI)

lemma ncols_hd: "A \<noteq> [] \<Longrightarrow> ncols A = length (hd A)"
  by (cases A) (simp_all add: ncols_def)

lemma np_diag_of_np_diag: "np_diag_of (np_diag D) = D"
proof (cases "D = []")
  case True
  then show ?thesis by (simp add: np_diag_of_def np_diag_def)
next
  case False
  then have "np_diag D \<noteq> []" and "length (hd (np_diag D)) = length D"
    by (simp_all add: np_diag_def hd_map)
  then have "ncols (np_diag D) = length D"
    by (simp add: ncols_hd)
  moreover have "length (np_diag D) = length D"
    by (simp add: np_diag_def)
  ultimately show ?thesis
    by (auto simp: np_diag_of_def np_diag_def intro!: nth_equalityI)
qed

lemma py_min_Min: "D \<noteq> [] \<Longrightarrow> py_min D = Some (Min (set D))"
proof (cases D)
  case Nil
  then show "D \<noteq> [] \<Longrightarrow> ?thesis" by simp
next
  case (Cons a r)
  then show ?thesis
    using Min.set_eq_fold [of a r] by (simp add: py_min_def)
qed

lemma floor_noop:
  "\<forall>x \<in> set D. tol < x \<Longrightarrow> map (\<lambda>x. if x < tol then tol else x) D = (D :: real list)"
  by (induction D) auto

lemma SymPDcovmatrix_reconstruction:
  assumes "dims d d A" and "0 < d" and "\<forall>i<d. \<forall>j<d. A ! i ! j = A ! j ! i"
    and "eig A = Some (D, V)" and "length D = d"
    and "np_dot V (np_diag D) = Some t" and "np_dot t (np_transpose V) = Some A"
    and "\<forall>x \<in> set D. tolerance_in_effect tol < x"
  shows "SymPDcovmatrix eig A tol = Some (A, max (tolerance_in_effect tol) (Min (set D)))"
proof -
  have half: "np_add A (np_transpose A) = Some (mscal 2 A)"
    using assms(1-3) by (simp add: np_transpose_symmetric np_add_self)
  have D: "py_min D = Some (Min (set D))"
    using assms(2,5) by (intro py_min_Min) auto
  have fl: "map (\<lambda>x. if x < tolerance_in_effect tol then tolerance_in_effect tol else x) D = D"
    using assms(8) by (rule floor_noop)
  have "SymPDcovmatrix eig A tol = do {
     S \<leftarrow> np_add A (np_transpose A);
     (D, V) \<leftarrow> eig (mscal (1 / 2) S);
     t \<leftarrow> np_dot V
       (np_diag (map (\<lambda>x. if x < tolerance_in_effect tol then tolerance_in_effect tol else x) D));
     A \<leftarrow> np_dot t (np_transpose V);
     least \<leftarrow> py_min (np_diag_of
       (np_diag (map (\<lambda>x. if x < tolerance_in_effect tol then tolerance_in_effect tol else x) D)));
     S \<leftarrow> np_add A (np_transpose A);
     Some (mscal (1 / 2) S, max (tolerance_in_effect tol) least)
   }"
    unfolding SymPDcovmatrix_def tolerance_in_effect_def Let_def ..
  then show ?thesis
    using assms(4,6,7)
    by (simp add: half mscal_half_double fl np_diag_of_np_diag D)
qed

subsection \<open>Products of matrices\<close>

lemma column_mat_mul:
  "j < ncols B \<Longrightarrow> column (mat_mul A B) j = mat_vec A (column B j)"
  by (simp add: column_def mat_mul_def mat_vec_def)

lemma length_column: "length (column A j) = length A"
  by (simp add: column_def)

lemma mat_mul_assoc:
  assumes "\<forall>r \<in> set A. length r = m" and "dims m c B" and "0 < m" and "dims c e C" and "0 < c"
  shows "mat_mul (mat_mul A B) C = mat_mul A (mat_mul B C)"
proof -
  have ncC: "ncols C = e" using assms(4,5) ncols_dims by blast
  have lenC: "length C = c" using assms(4) by (simp add: dims_def)
  have BC: "dims m e (mat_mul B C)"
    using assms(2,4,5) dims_mat_mul [of c e C B m] by (simp add: dims_def)
  then have ncBC: "ncols (mat_mul B C) = e" using assms(3) ncols_dims by blast
  have rowsB: "\<forall>r \<in> set B. length r = c" using assms(2) by (simp add: dims_def)
  have "vdot (map (\<lambda>k. vdot r (column B k)) [0..<ncols B]) (column C j)
      = vdot r (column (mat_mul B C) j)" if "r \<in> set A" and "j < e" for r j
  proof -
    have "vdot (map (\<lambda>k. vdot r (column B k)) [0..<ncols B]) (column C j)
        = vdot r (mat_vec B (column C j))"
      using that(1) assms(1-3) lenC vdot_row_mat [of r c B "column C j"]
      by (simp add: length_column)
    also have "mat_vec B (column C j) = column (mat_mul B C) j"
      using that(2) ncC by (simp add: column_mat_mul)
    finally show ?thesis .
  qed
  then have rows: "map (\<lambda>j. vdot (map (\<lambda>k. vdot r (column B k)) [0..<ncols B]) (column C j)) [0..<e]
      = map (\<lambda>j. vdot r (column (mat_mul B C) j)) [0..<e]" if "r \<in> set A" for r
    using that by simp
  have L: "mat_mul (mat_mul A B) C
      = map (\<lambda>r. map (\<lambda>j. vdot (map (\<lambda>k. vdot r (column B k)) [0..<ncols B]) (column C j)) [0..<e]) A"
    by (simp add: mat_mul_def ncC)
  have R: "mat_mul A (mat_mul B C) = map (\<lambda>r. map (\<lambda>j. vdot r (column (mat_mul B C) j)) [0..<e]) A"
    unfolding mat_mul_def [of A "mat_mul B C"] ncBC ..
  show ?thesis
    unfolding L R using rows by simp
qed

lemma vdot_unit:
  assumes "length r = d" and "j < d"
  shows "vdot r (map (\<lambda>i. if i = j then 1 else 0) [0..<d]) = r ! j"
proof -
  have "vdot r (map (\<lambda>i. if i = j then 1 else 0) [0..<d])
      = (\<Sum>i<d. r ! i * (if i = j then 1 else 0))"
    using assms(1) by (simp add: vdot_sum)
  also have "\<dots> = (\<Sum>i<d. if i = j then r ! i else 0)"
    by (intro sum.cong) auto
  also have "\<dots> = r ! j"
    using assms(2) by (simp add: sum.delta)
  finally show ?thesis .
qed

lemma ncols_eye: "ncols (eye d) = d"
  by (cases d) (simp_all add: eye_def ncols_def upt_conv_Cons del: upt_Suc)

lemma column_eye: "j < d \<Longrightarrow> column (eye d) j = map (\<lambda>i. if i = j then 1 else 0) [0..<d]"
  by (simp add: column_def eye_def)

lemma mat_mul_eye:
  assumes "\<forall>r \<in> set A. length r = d"
  shows "mat_mul A (eye d) = A"
proof -
  have "map (\<lambda>j. vdot r (column (eye d) j)) [0..<d] = r" if "r \<in> set A" for r
    using that assms by (auto simp: column_eye vdot_unit intro!: nth_equalityI)
  then show ?thesis
    by (simp add: mat_mul_def ncols_eye map_idI)
qed

lemma dims_np_transpose:
  assumes "dims r c A" and "0 < r"
  shows "dims c r (np_transpose A)"
  using assms ncols_dims [of r c A] by (auto simp: dims_def np_transpose_def length_column)

text \<open>
  Claim C8, as amended.  Let \<open>A\<close> be a symmetric square matrix for which the eigenvalue
  routine returns eigenvalues \<open>D\<close> and an orthogonal matrix \<open>V\<close> of eigenvectors: column
  \<open>j\<close> of \<open>V\<close> is an eigenvector of \<open>A\<close> for the eigenvalue \<open>D ! j\<close>, that is \<open>A V = V diag(D)\<close>,
  and \<open>V V\<^sup>T\<close> is the identity.  If all eigenvalues exceed the tolerance in effect, which is
  \<open>tol\<close> when a nonzero \<open>tol\<close> is given and \<open>1e-04\<close> when \<open>tol\<close> is zero or omitted, then
  \<^verbatim>\<open>SymPDcovmatrix(A, tol)\<close> returns \<open>A\<close> unchanged together with the maximum of that
  tolerance and the smallest eigenvalue.
\<close>

theorem SymPDcovmatrix_unchanged:
  assumes "dims d d A" and "0 < d" and "\<forall>i<d. \<forall>j<d. A ! i ! j = A ! j ! i"
    and "eig A = Some (D, V)" and "length D = d" and "dims d d V"
    and "mat_mul A V = mat_mul V (np_diag D)"
    and "mat_mul V (np_transpose V) = eye d"
    and "\<forall>x \<in> set D. tolerance_in_effect tol < x"
  shows "SymPDcovmatrix eig A tol = Some (A, max (tolerance_in_effect tol) (Min (set D)))"
proof -
  have rowsA: "\<forall>r \<in> set A. length r = d" and rowsV: "\<forall>r \<in> set V. length r = d"
    and lenV: "length V = d" and lenA: "length A = d"
    using assms(1,6) by (simp_all add: dims_def)
  have VT: "dims d d (np_transpose V)"
    using assms(2,6) by (rule dims_np_transpose [rotated])
  have AV: "dims d d (mat_mul A V)"
    using dims_mat_mul [OF assms(6) assms(2) lenA] .
  have 1: "np_dot V (np_diag D) = Some (mat_mul A V)"
    using rowsV assms(5,7) np_dot_mat_mul [of V "np_diag D"] by (simp add: np_diag_def)
  have "np_dot (mat_mul A V) (np_transpose V) = Some (mat_mul (mat_mul A V) (np_transpose V))"
    using AV VT by (intro np_dot_mat_mul) (simp add: dims_def)
  also have "mat_mul (mat_mul A V) (np_transpose V) = mat_mul A (mat_mul V (np_transpose V))"
    using mat_mul_assoc [OF rowsA assms(6) assms(2) VT assms(2)] .
  also have "\<dots> = A"
    using rowsA by (simp add: assms(8) mat_mul_eye)
  finally have 2: "np_dot (mat_mul A V) (np_transpose V) = Some A" .
  show ?thesis
    using assms(1-5) 1 2 assms(9) by (rule SymPDcovmatrix_reconstruction)
qed

theorem SymPDcovmatrix_unchanged_witness:
  "SymPDcovmatrix (\<lambda>A. Some ([2, 1], [[3 / 5, 4 / 5], [4 / 5, - 3 / 5]]))
     [[34 / 25, 12 / 25], [12 / 25, 41 / 25]] (Some (1 / 2))
   = Some ([[34 / 25, 12 / 25], [12 / 25, 41 / 25]], 1)"
proof -
  let ?A = "[[34 / 25, 12 / 25], [12 / 25, 41 / 25 :: real]]"
  let ?V = "[[3 / 5, 4 / 5], [4 / 5, - 3 / 5 :: real]]"
  have 1: "dims 2 2 ?A" by (simp add: dims_def)
  have 2: "(0::nat) < 2" by simp
  have 3: "\<forall>i<2. \<forall>j<2. ?A ! i ! j = ?A ! j ! i"
    by (auto simp: less_2_cases_iff)
  have 4: "(\<lambda>A :: mat. Some ([2, 1 :: real], ?V)) ?A = Some ([2, 1], ?V)" by simp
  have 5: "length [2, 1 :: real] = 2" by simp
  have 6: "dims 2 2 ?V" by (simp add: dims_def)
  have 7: "mat_mul ?A ?V = mat_mul ?V (np_diag [2, 1])"
    by code_simp
  have 8: "mat_mul ?V (np_transpose ?V) = eye 2"
    by code_simp
  have 9: "\<forall>x \<in> set [2, 1 :: real]. tolerance_in_effect (Some (1 / 2)) < x"
    by (simp add: tolerance_in_effect_def)
  show ?thesis
    using SymPDcovmatrix_unchanged [OF 1 2 3 4 5 6 7 8 9] by (simp add: tolerance_in_effect_def)
qed

text \<open>
  Eigenvectors of unit length are not enough.  Every vector is an eigenvector of the
  identity matrix for the eigenvalue 1; with the unit vectors \<open>(1, 0)\<close> and \<open>(3/5, 4/5)\<close>
  as the columns of \<open>V\<close> the identity comes back as another matrix.
\<close>

lemma SymPDcovmatrix_oblique_eigenvectors:
  "SymPDcovmatrix (\<lambda>A. Some ([1, 1], [[1, 3 / 5], [0, 4 / 5]])) [[1, 0], [0, 1]] (Some (1 / 2))
     = Some ([[34 / 25, 12 / 25], [12 / 25, 16 / 25]], 1)
   \<and> mat_mul [[1, 0], [0, 1]] [[1, 3 / 5], [0, 4 / 5]]
     = mat_mul [[1, 3 / 5], [0, 4 / 5]] (np_diag [1, 1])
   \<and> map (\<lambda>j. vdot (column [[1, 3 / 5], [0, 4 / 5]] j) (column [[1, 3 / 5], [0, 4 / 5]] j)) [0, 1]
     = [1, 1]"
  by code_simp

text \<open>The claim as stated fails for \<open>tol = 0\<close>: the eigenvalue \<open>1/20000\<close> of the 1\<times>1 matrix
  exceeds 0, and the matrix comes back as \<open>[[1/10000]]\<close> with \<open>e_min = 1/10000\<close>.\<close>

theorem SymPDcovmatrix_unchanged_counterexample:
  "SymPDcovmatrix eig_diagonal [[1 / 20000]] (Some 0) = Some ([[1 / 10000]], 1 / 10000)
   \<and> eig_diagonal [[1 / 20000]] = Some ([1 / 20000], [[1]])
   \<and> (0 :: real) < 1 / 20000"
  by code_simp

end
